theory Spec2Isabelle
  imports Complex_Main "HOL-Library.Word"
begin

section \<open>Asset levels (chrono/assets/ChAssetLevel.h)\<close>

text \<open>
  A \<open>std::shared_ptr<ChAsset>\<close> is either empty or points to an asset. Assets themselves
  (class \<open>ChAsset\<close>) are left abstract: the type variable \<open>'a\<close>.
\<close>

datatype 'a shared_ptr = Null | Ptr 'a

text \<open>
  What goes wrong at run time when the C++ does something undefined: reading a
  \<open>std::vector\<close> past its end, dereferencing a null pointer, reading a member that no
  constructor initialised.
\<close>

datatype fault = OutOfBounds | NullPointer | Uninitialised

text \<open>
  \<open>std::vector::operator[]\<close>: defined only for an index below \<open>size()\<close>.
\<close>

definition vector_at :: "'a list \<Rightarrow> nat \<Rightarrow> fault + 'a" where
  "vector_at v i = (if i < length v then Inr (v ! i) else Inl OutOfBounds)"

text \<open>
  The two data members of \<open>ChAssetLevel\<close>: the frame of the level (a \<open>ChFrame<>\<close>, abstract
  here) and the vector of shared pointers to the children.
\<close>

record ('f, 'a) ChAssetLevel =
  levelframe :: 'f
  assets :: "'a shared_ptr list"

text \<open>
  \<open>GetAssetN(unsigned int num)\<close>. The method is not \<open>const\<close>, so the model returns the level
  it leaves behind next to the pointer. \<open>num\<close> is a 32-bit unsigned integer and
  \<open>assets.size()\<close> a \<open>size_t\<close>: the comparison is between the two unsigned values.
\<close>

definition GetAssetN ::
  "32 word \<Rightarrow> ('f, 'a) ChAssetLevel \<Rightarrow> fault + ('a shared_ptr \<times> ('f, 'a) ChAssetLevel)" where
  "GetAssetN num l =
     (if unat num < length (assets l)
      then (case vector_at (assets l) (unat num) of
              Inl e \<Rightarrow> Inl e
            | Inr p \<Rightarrow> Inr (p, l))
      else Inr (Null, l))"

text \<open>\<open>AddAsset(masset)\<close>: \<open>assets.push_back(masset)\<close>.\<close>

definition AddAsset :: "'a shared_ptr \<Rightarrow> ('f, 'a) ChAssetLevel \<Rightarrow> ('f, 'a) ChAssetLevel" where
  "AddAsset masset l = l\<lparr>assets := assets l @ [masset]\<rparr>"

section \<open>The CityBus assembly (chrono_models/vehicle/citybus/CityBus.cpp)\<close>

text \<open>
  A \<open>double\<close> is modelled by a real number: the assembly only stores, compares and hands on
  such values, and adds masses; rounding and overflow are outside this model.
\<close>

text \<open>
  \<open>TireModelType\<close> is declared outside the files at hand. The \<open>switch\<close> of \<open>Initialize\<close>
  names three enumerators; every other one falls into its \<open>default\<close> branch and is
  \<open>OTHER_TIRE_MODEL\<close> here.
\<close>

datatype TireModelType = RIGID | RIGID_MESH | TMEASY | OTHER_TIRE_MODEL

datatype VehicleSide = LEFT | RIGHT

fun side_index :: "VehicleSide \<Rightarrow> nat" where
  "side_index LEFT = 0"
| "side_index RIGHT = 1"

text \<open>
  A tire, as far as the assembly touches it: its name, its integration step size
  (\<open>SetStepsize\<close>), the mass \<open>ReportMass()\<close> returns, and its internal state \<open>'w\<close>.
  A wheel holds a shared pointer to its tire, empty until \<open>InitializeTire\<close>.
\<close>

record 'w ChTire =
  tire_name :: string
  tire_stepsize :: real
  tire_mass :: real
  tire_state :: 'w

type_synonym 'w ChWheel = "'w ChTire shared_ptr"

text \<open>
  The vehicle (\<open>CityBus_Vehicle\<close>): its step size, its axles (each a vector of wheels), and
  everything else (chassis, suspensions, driveline, the physical system) as \<open>'b\<close>.
\<close>

record ('b, 'w) CityBus_Vehicle =
  veh_stepsize :: real
  veh_axles :: "'w ChWheel list list"
  veh_body :: 'b

text \<open>
  The classes the assembly is built from are declared outside the files at hand; what
  \<open>CityBus.cpp\<close> calls of them is a parameter of the model. \<open>'s\<close> is a \<open>ChSystem\<close>, \<open>'i\<close> the
  settings the assembly only hands on to the vehicle (contact method, chassis collision
  type, fixed flag, initial position, forward velocity and wheel angular velocities),
  \<open>'p\<close> the powertrain, \<open>'r\<close> the terrain. Vehicle and powertrain are two states: a call on
  one of them returns the new state of that one.
\<close>

record ('s, 'i, 'b, 'w, 'p, 'r) collaborators =
  base_step :: real
  new_body :: "'s option \<Rightarrow> 'i \<Rightarrow> 'b"
  chassis_SetAerodynamicDrag :: "real \<Rightarrow> real \<Rightarrow> real \<Rightarrow> 'b \<Rightarrow> 'b"
  new_powertrain :: "'b \<Rightarrow> 'p"
  new_RigidTire :: "string \<Rightarrow> bool \<Rightarrow> 'w ChTire"
  new_TMeasyTire :: "string \<Rightarrow> 'w ChTire"
  GetVehicleMass :: "('b, 'w) CityBus_Vehicle \<Rightarrow> real"
  GetDriveshaftSpeed :: "('b, 'w) CityBus_Vehicle \<Rightarrow> real"
  vehicle_Synchronize ::
    "real \<Rightarrow> real \<Rightarrow> real \<Rightarrow> real \<Rightarrow> 'r \<Rightarrow> ('b, 'w) CityBus_Vehicle \<Rightarrow> ('b, 'w) CityBus_Vehicle"
  vehicle_Advance :: "real \<Rightarrow> ('b, 'w) CityBus_Vehicle \<Rightarrow> ('b, 'w) CityBus_Vehicle"
  GetOutputTorque :: "'p \<Rightarrow> real"
  powertrain_Synchronize :: "real \<Rightarrow> real \<Rightarrow> real \<Rightarrow> 'p \<Rightarrow> 'p"
  powertrain_Advance :: "real \<Rightarrow> 'p \<Rightarrow> 'p"

text \<open>
  The data members of \<open>CityBus\<close>. \<open>m_vehicle\<close> and \<open>m_powertrain\<close> are raw pointers, null
  until \<open>Initialize\<close>. \<open>m_Cd\<close>, \<open>m_area\<close>, \<open>m_air_density\<close> and \<open>m_tire_mass\<close> are not
  initialised by the constructors: \<open>None\<close> until they are assigned.
\<close>

record ('s, 'i, 'b, 'w, 'p) CityBus =
  m_system :: "'s option"
  m_settings :: 'i
  m_tireType :: TireModelType
  m_vehicle_step_size :: real
  m_tire_step_size :: real
  m_apply_drag :: bool
  m_Cd :: "real option"
  m_area :: "real option"
  m_air_density :: "real option"
  m_tire_mass :: "real option"
  m_vehicle :: "('b, 'w) CityBus_Vehicle option"
  m_powertrain :: "'p option"

text \<open>
  The constructors \<open>CityBus()\<close> and \<open>CityBus(ChSystem* system)\<close>. They differ in
  \<open>m_system\<close> and in the tire model. \<open>i0\<close> stands for the fixed initial settings.
\<close>

definition CityBus_default :: "'i \<Rightarrow> ('s, 'i, 'b, 'w, 'p) CityBus" where
  "CityBus_default i0 =
     \<lparr>m_system = None, m_settings = i0, m_tireType = TMEASY,
      m_vehicle_step_size = - 1, m_tire_step_size = - 1, m_apply_drag = False,
      m_Cd = None, m_area = None, m_air_density = None, m_tire_mass = None,
      m_vehicle = None, m_powertrain = None\<rparr>"

definition CityBus_in_system :: "'s \<Rightarrow> 'i \<Rightarrow> ('s, 'i, 'b, 'w, 'p) CityBus" where
  "CityBus_in_system system i0 =
     \<lparr>m_system = Some system, m_settings = i0, m_tireType = RIGID,
      m_vehicle_step_size = - 1, m_tire_step_size = - 1, m_apply_drag = False,
      m_Cd = None, m_area = None, m_air_density = None, m_tire_mass = None,
      m_vehicle = None, m_powertrain = None\<rparr>"

definition SetAerodynamicDrag ::
  "real \<Rightarrow> real \<Rightarrow> real \<Rightarrow> ('s, 'i, 'b, 'w, 'p) CityBus \<Rightarrow> ('s, 'i, 'b, 'w, 'p) CityBus" where
  "SetAerodynamicDrag Cd area air_density c =
     c\<lparr>m_Cd := Some Cd, m_area := Some area, m_air_density := Some air_density,
       m_apply_drag := True\<rparr>"

text \<open>Sequencing of steps that may fault: the first fault ends the run.\<close>

definition and_then :: "fault + 'a \<Rightarrow> ('a \<Rightarrow> fault + 'b) \<Rightarrow> fault + 'b" where
  "and_then m f = (case m of Inl e \<Rightarrow> Inl e | Inr x \<Rightarrow> f x)"

text \<open>Reading a member that may not have been initialised.\<close>

definition read_member :: "'a option \<Rightarrow> fault + 'a" where
  "read_member m = (case m of None \<Rightarrow> Inl Uninitialised | Some x \<Rightarrow> Inr x)"

text \<open>
  Modelled from the spec: \<open>CityBus_Vehicle\<close>, its constructor and \<open>Initialize\<close> are outside
  the files at hand. The spec's assembly has four wheels; \<open>CityBus::Initialize\<close> reaches them
  as wheels \<open>LEFT\<close> and \<open>RIGHT\<close> of axles 0 and 1. A new vehicle has the base step size and
  four wheels without tires.
\<close>

definition new_CityBus_Vehicle ::
  "('s, 'i, 'b, 'w, 'p, 'r) collaborators \<Rightarrow> 's option \<Rightarrow> 'i \<Rightarrow> ('b, 'w) CityBus_Vehicle" where
  "new_CityBus_Vehicle E sys i =
     \<lparr>veh_stepsize = base_step E, veh_axles = [[Null, Null], [Null, Null]],
      veh_body = new_body E sys i\<rparr>"

text \<open>
  \<open>m_vehicle->InitializeTire(tire, m_vehicle->GetAxle(a)->m_wheels[side])\<close>: the wheel is
  given the tire. Both vector reads are checked.
\<close>

definition InitializeTire ::
  "'w ChTire \<Rightarrow> nat \<Rightarrow> VehicleSide \<Rightarrow> ('b, 'w) CityBus_Vehicle \<Rightarrow> fault + ('b, 'w) CityBus_Vehicle" where
  "InitializeTire tire a side v =
     and_then (vector_at (veh_axles v) a) (\<lambda>wheels.
     and_then (vector_at wheels (side_index side)) (\<lambda>_.
       Inr (v\<lparr>veh_axles := (veh_axles v)[a := wheels[side_index side := Ptr tire]]\<rparr>)))"

text \<open>
  The loop at the end of \<open>Initialize\<close>: for every wheel of every axle, if
  \<open>m_tire_step_size > 0\<close>, \<open>wheel->GetTire()->SetStepsize(m_tire_step_size)\<close>. The call
  dereferences the wheel's tire pointer.
\<close>

fun set_tire_step :: "real \<Rightarrow> 'w ChWheel \<Rightarrow> fault + 'w ChWheel" where
  "set_tire_step h wheel =
     (if h > 0
      then (case wheel of
              Null \<Rightarrow> Inl NullPointer
            | Ptr tire \<Rightarrow> Inr (Ptr (tire\<lparr>tire_stepsize := h\<rparr>)))
      else Inr wheel)"

fun set_wheels_step :: "real \<Rightarrow> 'w ChWheel list \<Rightarrow> fault + 'w ChWheel list" where
  "set_wheels_step h [] = Inr []"
| "set_wheels_step h (wheel # wheels) =
     and_then (set_tire_step h wheel) (\<lambda>wheel'.
     and_then (set_wheels_step h wheels) (\<lambda>wheels'. Inr (wheel' # wheels')))"

fun set_axles_step :: "real \<Rightarrow> 'w ChWheel list list \<Rightarrow> fault + 'w ChWheel list list" where
  "set_axles_step h [] = Inr []"
| "set_axles_step h (axle # axles) =
     and_then (set_wheels_step h axle) (\<lambda>axle'.
     and_then (set_axles_step h axles) (\<lambda>axles'. Inr (axle' # axles')))"

text \<open>
  The four tires of one \<open>case\<close> of the \<open>switch\<close>: created as FL, FR, RL, RR, attached to the
  wheels in that order; \<open>m_tire_mass\<close> is the mass the front left tire reports.
\<close>

definition attach_tires ::
  "(string \<Rightarrow> 'w ChTire) \<Rightarrow> ('b, 'w) CityBus_Vehicle \<Rightarrow> fault + (('b, 'w) CityBus_Vehicle \<times> real option)" where
  "attach_tires make_tire v =
     (let tire_FL = make_tire ''FL''; tire_FR = make_tire ''FR'';
          tire_RL = make_tire ''RL''; tire_RR = make_tire ''RR''
      in and_then (InitializeTire tire_FL 0 LEFT v) (\<lambda>v.
         and_then (InitializeTire tire_FR 0 RIGHT v) (\<lambda>v.
         and_then (InitializeTire tire_RL 1 LEFT v) (\<lambda>v.
         and_then (InitializeTire tire_RR 1 RIGHT v) (\<lambda>v.
           Inr (v, Some (tire_mass tire_FL)))))))"

text \<open>\<open>CityBus::Initialize()\<close>.\<close>

definition Initialize ::
  "('s, 'i, 'b, 'w, 'p, 'r) collaborators \<Rightarrow> ('s, 'i, 'b, 'w, 'p) CityBus
     \<Rightarrow> fault + ('s, 'i, 'b, 'w, 'p) CityBus" where
  "Initialize E c =
     (let v0 = new_CityBus_Vehicle E (m_system c) (m_settings c);
          v1 = (if m_vehicle_step_size c > 0
                then v0\<lparr>veh_stepsize := m_vehicle_step_size c\<rparr> else v0)
      in and_then
           (if m_apply_drag c
            then and_then (read_member (m_Cd c)) (\<lambda>Cd.
                 and_then (read_member (m_area c)) (\<lambda>area.
                 and_then (read_member (m_air_density c)) (\<lambda>air_density.
                   Inr (v1\<lparr>veh_body := chassis_SetAerodynamicDrag E Cd area air_density (veh_body v1)\<rparr>))))
            else Inr v1) (\<lambda>v2.
         let powertrain = new_powertrain E (veh_body v2)
         in and_then
              (case m_tireType c of
                 RIGID_MESH \<Rightarrow> attach_tires (\<lambda>name. new_RigidTire E name True) v2
               | RIGID \<Rightarrow> attach_tires (\<lambda>name. new_RigidTire E name False) v2
               | TMEASY \<Rightarrow> attach_tires (new_TMeasyTire E) v2
               | OTHER_TIRE_MODEL \<Rightarrow> Inr (v2, m_tire_mass c)) (\<lambda>(v3, mass).
            and_then (set_axles_step (m_tire_step_size c) (veh_axles v3)) (\<lambda>axles.
              Inr (c\<lparr>m_vehicle := Some (v3\<lparr>veh_axles := axles\<rparr>),
                     m_powertrain := Some powertrain,
                     m_tire_mass := mass\<rparr>)))))"

text \<open>
  \<open>CityBus::Synchronize\<close>: the output torque and the driveshaft speed are read first; then
  the powertrain is synchronised with the speed and the vehicle with the torque read.
\<close>

definition CityBus_Synchronize ::
  "('s, 'i, 'b, 'w, 'p, 'r) collaborators \<Rightarrow> real \<Rightarrow> real \<Rightarrow> real \<Rightarrow> real \<Rightarrow> 'r
     \<Rightarrow> ('s, 'i, 'b, 'w, 'p) CityBus \<Rightarrow> fault + ('s, 'i, 'b, 'w, 'p) CityBus" where
  "CityBus_Synchronize E time steering_input braking_input throttle_input terrain c =
     (case m_powertrain c of
        None \<Rightarrow> Inl NullPointer
      | Some p \<Rightarrow>
          (case m_vehicle c of
             None \<Rightarrow> Inl NullPointer
           | Some v \<Rightarrow>
               (let powertrain_torque = GetOutputTorque E p;
                    driveshaft_speed = GetDriveshaftSpeed E v
                in Inr (c\<lparr>m_powertrain :=
                             Some (powertrain_Synchronize E time throttle_input driveshaft_speed p),
                           m_vehicle :=
                             Some (vehicle_Synchronize E time steering_input braking_input
                                     powertrain_torque terrain v)\<rparr>))))"

text \<open>\<open>CityBus::Advance(step)\<close>: the powertrain, then the vehicle.\<close>

definition CityBus_Advance ::
  "('s, 'i, 'b, 'w, 'p, 'r) collaborators \<Rightarrow> real
     \<Rightarrow> ('s, 'i, 'b, 'w, 'p) CityBus \<Rightarrow> fault + ('s, 'i, 'b, 'w, 'p) CityBus" where
  "CityBus_Advance E step c =
     (case m_powertrain c of
        None \<Rightarrow> Inl NullPointer
      | Some p \<Rightarrow>
          (case m_vehicle c of
             None \<Rightarrow> Inl NullPointer
           | Some v \<Rightarrow>
               Inr (c\<lparr>m_powertrain := Some (powertrain_Advance E step p),
                      m_vehicle := Some (vehicle_Advance E step v)\<rparr>)))"

text \<open>\<open>CityBus::GetTotalMass() const\<close>: a value computed from the members, no new state.\<close>

definition GetTotalMass ::
  "('s, 'i, 'b, 'w, 'p, 'r) collaborators \<Rightarrow> ('s, 'i, 'b, 'w, 'p) CityBus \<Rightarrow> fault + real" where
  "GetTotalMass E c =
     (case m_vehicle c of
        None \<Rightarrow> Inl NullPointer
      | Some v \<Rightarrow> and_then (read_member (m_tire_mass c)) (\<lambda>m. Inr (GetVehicleMass E v + 4 * m)))"

text \<open>
  What a caller does with an initialised assembly: calls of \<open>Synchronize\<close> and \<open>Advance\<close>, in
  any order; a fault ends the run. One tick of the simulation is a \<open>Synchronize\<close> followed by
  an \<open>Advance\<close>.
\<close>

datatype 'r call =
  Synchronize_call real real real real 'r
| Advance_call real

fun do_call ::
  "('s, 'i, 'b, 'w, 'p, 'r) collaborators \<Rightarrow> 'r call
     \<Rightarrow> ('s, 'i, 'b, 'w, 'p) CityBus \<Rightarrow> fault + ('s, 'i, 'b, 'w, 'p) CityBus" where
  "do_call E (Synchronize_call time steering braking throttle terrain) c =
     CityBus_Synchronize E time steering braking throttle terrain c"
| "do_call E (Advance_call step) c = CityBus_Advance E step c"

fun run_calls ::
  "('s, 'i, 'b, 'w, 'p, 'r) collaborators \<Rightarrow> 'r call list
     \<Rightarrow> ('s, 'i, 'b, 'w, 'p) CityBus \<Rightarrow> fault + ('s, 'i, 'b, 'w, 'p) CityBus" where
  "run_calls E [] c = Inr c"
| "run_calls E (x # xs) c = and_then (do_call E x c) (run_calls E xs)"

record 'r tick_input =
  tick_time :: real
  tick_steering :: real
  tick_braking :: real
  tick_throttle :: real
  tick_terrain :: 'r
  tick_step :: real

definition tick_calls :: "'r tick_input \<Rightarrow> 'r call list" where
  "tick_calls i =
     [Synchronize_call (tick_time i) (tick_steering i) (tick_braking i) (tick_throttle i)
        (tick_terrain i),
      Advance_call (tick_step i)]"

definition run_ticks ::
  "('s, 'i, 'b, 'w, 'p, 'r) collaborators \<Rightarrow> 'r tick_input list
     \<Rightarrow> ('s, 'i, 'b, 'w, 'p) CityBus \<Rightarrow> fault + ('s, 'i, 'b, 'w, 'p) CityBus" where
  "run_ticks E ticks c = run_calls E (concat (map tick_calls ticks)) c"

text \<open>The assembly has been initialised: both subsystems exist.\<close>

definition initialised :: "('s, 'i, 'b, 'w, 'p) CityBus \<Rightarrow> bool" where
  "initialised c = (m_vehicle c \<noteq> None \<and> m_powertrain c \<noteq> None)"

text \<open>
  \<open>m_apply_drag\<close> is set by \<open>SetAerodynamicDrag\<close> only, together with the three drag
  parameters: whenever the flag is set, the parameters are there.
\<close>

definition drag_defined :: "('s, 'i, 'b, 'w, 'p) CityBus \<Rightarrow> bool" where
  "drag_defined c =
     (m_apply_drag c \<longrightarrow> m_Cd c \<noteq> None \<and> m_area c \<noteq> None \<and> m_air_density c \<noteq> None)"

text \<open>The tire constructor each tire model selects; none for the \<open>default\<close> branch.\<close>

fun tire_factory ::
  "('s, 'i, 'b, 'w, 'p, 'r) collaborators \<Rightarrow> TireModelType \<Rightarrow> (string \<Rightarrow> 'w ChTire) option" where
  "tire_factory E RIGID_MESH = Some (\<lambda>name. new_RigidTire E name True)"
| "tire_factory E RIGID = Some (\<lambda>name. new_RigidTire E name False)"
| "tire_factory E TMEASY = Some (new_TMeasyTire E)"
| "tire_factory E OTHER_TIRE_MODEL = None"

text \<open>What the final loop of \<open>Initialize\<close> does to a tire.\<close>

definition with_step :: "real \<Rightarrow> 'w ChTire \<Rightarrow> 'w ChTire" where
  "with_step h tire = (if h > 0 then tire\<lparr>tire_stepsize := h\<rparr> else tire)"

text \<open>The tires of a vehicle, wheel by wheel; a wheel without a tire contributes none.\<close>

fun wheel_tires :: "'w ChWheel list \<Rightarrow> 'w ChTire list" where
  "wheel_tires [] = []"
| "wheel_tires (Null # wheels) = wheel_tires wheels"
| "wheel_tires (Ptr tire # wheels) = tire # wheel_tires wheels"

definition vehicle_tires :: "('b, 'w) CityBus_Vehicle \<Rightarrow> 'w ChTire list" where
  "vehicle_tires v = wheel_tires (concat (veh_axles v))"

text \<open>The vehicle body and the vehicle step size that \<open>Initialize\<close> arrives at.\<close>

definition initial_body ::
  "('s, 'i, 'b, 'w, 'p, 'r) collaborators \<Rightarrow> ('s, 'i, 'b, 'w, 'p) CityBus \<Rightarrow> 'b" where
  "initial_body E c =
     (if m_apply_drag c
      then chassis_SetAerodynamicDrag E (the (m_Cd c)) (the (m_area c)) (the (m_air_density c))
             (new_body E (m_system c) (m_settings c))
      else new_body E (m_system c) (m_settings c))"

definition initial_step ::
  "('s, 'i, 'b, 'w, 'p, 'r) collaborators \<Rightarrow> ('s, 'i, 'b, 'w, 'p) CityBus \<Rightarrow> real" where
  "initial_step E c = (if m_vehicle_step_size c > 0 then m_vehicle_step_size c else base_step E)"

text \<open>
  An assumption on the vehicle, whose code is outside the files at hand: its \<open>Synchronize\<close>
  and \<open>Advance\<close> neither attach or detach tires nor change a tire's mass.
\<close>

definition tire_masses_kept :: "('s, 'i, 'b, 'w, 'p, 'r) collaborators \<Rightarrow> bool" where
  "tire_masses_kept E =
     ((\<forall>h v. map tire_mass (vehicle_tires (vehicle_Advance E h v)) = map tire_mass (vehicle_tires v)) \<and>
      (\<forall>t st br tq r v.
         map tire_mass (vehicle_tires (vehicle_Synchronize E t st br tq r v)) =
         map tire_mass (vehicle_tires v)))"

text \<open>
  The tire mass \<open>Initialize\<close> recorded is \<open>m\<close>, both subsystems exist, and the tires of the
  vehicle have the masses \<open>ms\<close>.
\<close>

definition mass_recorded :: "real \<Rightarrow> real list \<Rightarrow> ('s, 'i, 'b, 'w, 'p) CityBus \<Rightarrow> bool" where
  "mass_recorded m ms c =
     (m_tire_mass c = Some m \<and> m_powertrain c \<noteq> None \<and>
      (\<exists>v. m_vehicle c = Some v \<and> map tire_mass (vehicle_tires v) = ms))"

subsection \<open>A small instance of the collaborators\<close>

text \<open>
  The vehicle body holds a driveshaft speed and the torque last applied; the powertrain is
  its output torque, recomputed at \<open>Synchronize\<close> from throttle and driveshaft speed.
\<close>

record toy_body =
  shaft_speed :: real
  applied_torque :: real

record toy_powertrain =
  output_torque :: real
  integrated :: real

definition toy_tire :: "real \<Rightarrow> string \<Rightarrow> real ChTire" where
  "toy_tire m name = \<lparr>tire_name = name, tire_stepsize = 1 / 1000, tire_mass = m, tire_state = 0\<rparr>"

definition toy :: "(unit, unit, toy_body, real, toy_powertrain, unit) collaborators" where
  "toy =
     \<lparr>base_step = 1 / 1000,
      new_body = (\<lambda>_ _. \<lparr>shaft_speed = 0, applied_torque = 0\<rparr>),
      chassis_SetAerodynamicDrag = (\<lambda>_ _ _ b. b),
      new_powertrain = (\<lambda>_. \<lparr>output_torque = 0, integrated = 0\<rparr>),
      new_RigidTire = (\<lambda>name _. toy_tire 60 name),
      new_TMeasyTire = toy_tire 50,
      GetVehicleMass = (\<lambda>_. 13000),
      GetDriveshaftSpeed = (\<lambda>v. shaft_speed (veh_body v)),
      vehicle_Synchronize =
        (\<lambda>_ _ _ torque _ v. v\<lparr>veh_body := (veh_body v)\<lparr>applied_torque := torque\<rparr>\<rparr>),
      vehicle_Advance =
        (\<lambda>h v. v\<lparr>veh_body :=
                   (veh_body v)\<lparr>shaft_speed :=
                                  shaft_speed (veh_body v) + h * applied_torque (veh_body v)\<rparr>\<rparr>),
      GetOutputTorque = output_torque,
      powertrain_Synchronize = (\<lambda>_ throttle speed p. p\<lparr>output_torque := throttle * (100 - speed)\<rparr>),
      powertrain_Advance = (\<lambda>h p. p\<lparr>integrated := integrated p + h\<rparr>)\<rparr>"

definition toy_bus :: "(unit, unit, toy_body, real, toy_powertrain) CityBus" where
  "toy_bus = CityBus_default ()"

text \<open>The toy bus as \<open>Initialize\<close> leaves it.\<close>

definition toy_vehicle :: "(toy_body, real) CityBus_Vehicle" where
  "toy_vehicle =
     \<lparr>veh_stepsize = 1 / 1000,
      veh_axles = [[Ptr (toy_tire 50 ''FL''), Ptr (toy_tire 50 ''FR'')],
                   [Ptr (toy_tire 50 ''RL''), Ptr (toy_tire 50 ''RR'')]],
      veh_body = \<lparr>shaft_speed = 0, applied_torque = 0\<rparr>\<rparr>"

definition toy_ready :: "(unit, unit, toy_body, real, toy_powertrain) CityBus" where
  "toy_ready =
     toy_bus\<lparr>m_vehicle := Some toy_vehicle,
             m_powertrain := Some \<lparr>output_torque = 0, integrated = 0\<rparr>,
             m_tire_mass := Some 50\<rparr>"

text \<open>
  The toy bus with a tire model of the \<open>default\<close> branch, as \<open>Initialize\<close> leaves it: no
  tires, no tire mass. And a tick of the toy simulation.
\<close>

definition toy_bare :: "(unit, unit, toy_body, real, toy_powertrain) CityBus" where
  "toy_bare =
     toy_bus\<lparr>m_tireType := OTHER_TIRE_MODEL,
             m_vehicle := Some (toy_vehicle\<lparr>veh_axles := [[Null, Null], [Null, Null]]\<rparr>),
             m_powertrain := Some \<lparr>output_torque = 0, integrated = 0\<rparr>\<rparr>"

definition toy_tick :: "real \<Rightarrow> real \<Rightarrow> unit tick_input" where
  "toy_tick t th =
     \<lparr>tick_time = t, tick_steering = 0, tick_braking = 0, tick_throttle = th,
      tick_terrain = (), tick_step = 1\<rparr>"

section \<open>Sub-stepping of the tires\<close>

text \<open>
  Modelled from the spec: the vehicle's own \<open>Advance\<close>, which \<open>CityBus::Advance\<close> calls, is
  outside the files at hand. The spec has \<open>Advance(outerStep)\<close> integrate each tire subsystem
  over \<open>outerStep\<close> "using \<open>ceil(outerStep / tireStep)\<close> equal sub-steps (last sub-step may be
  shorter to land exactly on \<open>outerStep\<close>)". \<open>integrate h w\<close> is one integration step of
  length \<open>h\<close> from the tire state \<open>w\<close>, a black box; \<open>remaining\<close> is what is left of
  \<open>outerStep\<close>.
\<close>

fun tire_substeps :: "(real \<Rightarrow> 'w \<Rightarrow> 'w) \<Rightarrow> real \<Rightarrow> nat \<Rightarrow> real \<Rightarrow> 'w \<Rightarrow> 'w" where
  "tire_substeps integrate h 0 remaining w = w"
| "tire_substeps integrate h (Suc n) remaining w =
     tire_substeps integrate h n (remaining - min h remaining) (integrate (min h remaining) w)"

definition tire_Advance :: "(real \<Rightarrow> 'w \<Rightarrow> 'w) \<Rightarrow> real \<Rightarrow> 'w ChTire \<Rightarrow> 'w ChTire" where
  "tire_Advance integrate outerStep tire =
     tire\<lparr>tire_state :=
            tire_substeps integrate (tire_stepsize tire)
              (nat \<lceil>outerStep / tire_stepsize tire\<rceil>) outerStep (tire_state tire)\<rparr>"

text \<open>
  Modelled from the spec: the vehicle's \<open>Advance\<close> integrates every tire that is attached to
  a wheel over the outer step, each on its own step size, and the rest of the vehicle once.
\<close>

definition substepping_Advance ::
  "(real \<Rightarrow> 'b \<Rightarrow> 'b) \<Rightarrow> (real \<Rightarrow> 'w \<Rightarrow> 'w) \<Rightarrow> real
     \<Rightarrow> ('b, 'w) CityBus_Vehicle \<Rightarrow> ('b, 'w) CityBus_Vehicle" where
  "substepping_Advance integrate_body integrate_tire outerStep v =
     v\<lparr>veh_axles :=
         map (map (map_shared_ptr (tire_Advance integrate_tire outerStep))) (veh_axles v),
       veh_body := integrate_body outerStep (veh_body v)\<rparr>"

text \<open>
  Modelled from the spec: "\<open>tireStep\<close> dividing \<open>vehicleStep\<close>", for a tire of the vehicle: the
  tire step size is positive and the vehicle step is a whole number of tire steps.
\<close>

definition divides_step :: "real \<Rightarrow> 'w ChTire \<Rightarrow> bool" where
  "divides_step vehicleStep tire =
     (0 < tire_stepsize tire \<and> (\<exists>k::nat. vehicleStep = real k * tire_stepsize tire))"

text \<open>
  The toy instance with this \<open>Advance\<close>: a tire state \<open>w\<close> follows \<open>w' = w + 1\<close> by Euler steps.
  Its tires have the step size 1/2.
\<close>

definition euler_tire :: "real \<Rightarrow> real \<Rightarrow> real" where
  "euler_tire h w = w + h * (w + 1)"

definition substep_toy :: "(unit, unit, toy_body, real, toy_powertrain, unit) collaborators" where
  "substep_toy = toy\<lparr>vehicle_Advance := substepping_Advance (\<lambda>h b. b) euler_tire\<rparr>"

definition substep_vehicle :: "real \<Rightarrow> (toy_body, real) CityBus_Vehicle" where
  "substep_vehicle w =
     \<lparr>veh_stepsize = 1,
      veh_axles =
        [[Ptr ((toy_tire 50 ''FL'')\<lparr>tire_stepsize := 1 / 2, tire_state := w\<rparr>),
          Ptr ((toy_tire 50 ''FR'')\<lparr>tire_stepsize := 1 / 2, tire_state := w\<rparr>)],
         [Ptr ((toy_tire 50 ''RL'')\<lparr>tire_stepsize := 1 / 2, tire_state := w\<rparr>),
          Ptr ((toy_tire 50 ''RR'')\<lparr>tire_stepsize := 1 / 2, tire_state := w\<rparr>)]],
      veh_body = \<lparr>shaft_speed = 0, applied_torque = 0\<rparr>\<rparr>"

definition substep_ready :: "(unit, unit, toy_body, real, toy_powertrain) CityBus" where
  "substep_ready = toy_ready\<lparr>m_vehicle := Some (substep_vehicle 0)\<rparr>"

section \<open>The path-follower controller (ACC driver)\<close>

text \<open>
  Modelled from the spec: the driver classes (\<open>ChPathFollowerACCDriver\<close>,
  \<open>ChMulPathFollowerACCDriver\<close>, their speed and steering controllers) are outside the files
  at hand; \<open>demo_SYN_highway.cpp\<close> only constructs them and calls \<open>changePath(1)\<close>. The
  definitions of this section follow sections 3 and 4.3 of the spec.

  A path is a sequence of 3-D control points and a flag for a closed path. A controller
  has gains \<open>Kp\<close>, \<open>Ki\<close>, \<open>Kd\<close> and an integral/derivative memory \<open>'m\<close>.
\<close>

type_synonym point = "real \<times> real \<times> real"

record path =
  control_points :: "point list"
  is_closed :: bool

datatype path_mode = SinglePath | MultiPath

record pid_gains =
  Kp :: real
  Ki :: real
  Kd :: real

record 'm pid_controller =
  gains :: pid_gains
  memory :: 'm

text \<open>
  Modelled from the spec: the out-of-range error of \<open>changePath\<close> and the failure of the
  construction on a path of fewer than 2 points.
\<close>

datatype control_error = OutOfRange | DegeneratePath

text \<open>
  Modelled from the spec: the data of the controller (section 3): mode, paths, active path
  index, target speed, following time gap, minimum following distance, last-known distance
  to the lead object, the two controllers, the look-ahead distance of the steering
  controller, and the three commands it computes.
\<close>

record 'm PathFollowerController =
  mode :: path_mode
  paths :: "path list"
  active_path :: nat
  target_speed :: real
  following_time :: real
  min_following_distance :: real
  lead_distance :: "real option"
  speed_controller :: "'m pid_controller"
  steering_controller :: "'m pid_controller"
  look_ahead :: real
  steering :: real
  throttle :: real
  braking :: real

text \<open>
  Modelled from the spec: what the spec names without a formula is a parameter. \<open>pid_law\<close>
  is one evaluation of a PID controller: from gains, memory and error to the output and the
  new memory; \<open>fresh_memory\<close> is the memory of a controller that has seen no error.
  \<open>steering_error\<close> projects the vehicle onto the active path plus the look-ahead distance
  and returns the signed lateral/heading error; \<open>own_speed\<close> reads the vehicle's speed;
  \<open>gap_gain\<close> is the factor of the car-following law; \<open>path_trigger\<close> is the caller-driven
  trigger of a path switch, a function of the time.
\<close>

record ('own, 'm) control_laws =
  pid_law :: "pid_gains \<Rightarrow> 'm \<Rightarrow> real \<Rightarrow> real \<times> 'm"
  fresh_memory :: 'm
  steering_error :: "path \<Rightarrow> real \<Rightarrow> 'own \<Rightarrow> real"
  own_speed :: "'own \<Rightarrow> real"
  gap_gain :: real
  path_trigger :: "real \<Rightarrow> int option"

text \<open>Modelled from the spec: "clamped to [-1, 1]", "clamped to [0,1] each".\<close>

definition clamp :: "real \<Rightarrow> real \<Rightarrow> real \<Rightarrow> real" where
  "clamp lo hi x = max lo (min hi x)"

text \<open>
  Modelled from the spec: "PID(error)", one evaluation of a controller on an error, which
  updates its memory; and the outputs of a controller fed a sequence of errors.
\<close>

definition pid_step ::
  "('own, 'm) control_laws \<Rightarrow> 'm pid_controller \<Rightarrow> real \<Rightarrow> real \<times> 'm pid_controller" where
  "pid_step L pc e = (case pid_law L (gains pc) (memory pc) e of (out, m) \<Rightarrow> (out, pc\<lparr>memory := m\<rparr>))"

fun pid_outputs :: "('own, 'm) control_laws \<Rightarrow> 'm pid_controller \<Rightarrow> real list \<Rightarrow> real list" where
  "pid_outputs L pc [] = []"
| "pid_outputs L pc (e # es) = (case pid_step L pc e of (out, pc') \<Rightarrow> out # pid_outputs L pc' es)"

text \<open>
  Modelled from the spec: "if the path has fewer than 2 points, steering error is
  undefined -- must fail fast at construction". A new controller follows its first path;
  it is in \<open>MultiPath\<close> mode when it is given more than one.
\<close>

definition new_controller ::
  "('own, 'm) control_laws \<Rightarrow> path list \<Rightarrow> real \<Rightarrow> real \<Rightarrow> real \<Rightarrow> real option
     \<Rightarrow> pid_gains \<Rightarrow> pid_gains \<Rightarrow> real \<Rightarrow> control_error + 'm PathFollowerController" where
  "new_controller L ps speed time_gap min_distance distance speed_gains steering_gains ahead =
     (if ps = [] \<or> (\<exists>p \<in> set ps. length (control_points p) < 2) then Inl DegeneratePath
      else Inr \<lparr>mode = (if length ps = 1 then SinglePath else MultiPath),
                paths = ps, active_path = 0,
                target_speed = speed, following_time = time_gap,
                min_following_distance = min_distance, lead_distance = distance,
                speed_controller = \<lparr>gains = speed_gains, memory = fresh_memory L\<rparr>,
                steering_controller = \<lparr>gains = steering_gains, memory = fresh_memory L\<rparr>,
                look_ahead = ahead, steering = 0, throttle = 0, braking = 0\<rparr>)"

text \<open>
  Modelled from the spec: "\<open>changePath(index)\<close>: validates \<open>0 <= index < pathCount\<close>; fails
  with an out-of-range error otherwise; is idempotent if called with the already-active
  index", and "on switch, reset only the steering controller's integral/derivative memory,
  preserve speed-controller memory". The result is the error, if any, and the controller
  the call leaves behind.
\<close>

definition changePath ::
  "('own, 'm) control_laws \<Rightarrow> int \<Rightarrow> 'm PathFollowerController
     \<Rightarrow> control_error option \<times> 'm PathFollowerController" where
  "changePath L index c =
     (if 0 \<le> index \<and> index < int (length (paths c))
      then (if nat index = active_path c then (None, c)
            else (None, c\<lparr>active_path := nat index,
                           steering_controller :=
                             (steering_controller c)\<lparr>memory := fresh_memory L\<rparr>\<rparr>))
      else (Some OutOfRange, c))"

text \<open>
  Modelled from the spec: section 4.3, \<open>Synchronize(time, ownState, leadDistance)\<close>. The
  steering command is the PID output on the steering error, clamped to [-1, 1]; the desired
  gap is \<open>max(minFollowingDistance, targetSpeed * followingTime)\<close>; the target acceleration
  is the PID output on the speed error, reduced proportionally to the gap error when a lead
  object is tracked closer than the desired gap; a positive acceleration is throttle, a
  negative one braking, each clamped to [0, 1]; in \<open>MultiPath\<close> mode the trigger may then
  switch the path.
\<close>

definition desired_gap :: "'m PathFollowerController \<Rightarrow> real" where
  "desired_gap c = max (min_following_distance c) (target_speed c * following_time c)"

definition target_acceleration :: "('own, 'm) control_laws \<Rightarrow> 'm PathFollowerController
     \<Rightarrow> real option \<Rightarrow> real \<Rightarrow> real" where
  "target_acceleration L c leadDistance free_flow =
     (case leadDistance of
        None \<Rightarrow> free_flow
      | Some d \<Rightarrow>
          if d < desired_gap c then free_flow - gap_gain L * (desired_gap c - d)
          else free_flow)"

definition steering_and_speed ::
  "('own, 'm) control_laws \<Rightarrow> 'own \<Rightarrow> real option \<Rightarrow> path \<Rightarrow> 'm PathFollowerController
     \<Rightarrow> 'm PathFollowerController" where
  "steering_and_speed L ownState leadDistance active c =
     (case pid_step L (steering_controller c)
             (steering_error L active (look_ahead c) ownState) of
        (steer_out, steering_pid) \<Rightarrow>
     (case pid_step L (speed_controller c) (target_speed c - own_speed L ownState) of
        (free_flow, speed_pid) \<Rightarrow>
          (let acceleration = target_acceleration L c leadDistance free_flow
           in c\<lparr>steering_controller := steering_pid,
                speed_controller := speed_pid,
                lead_distance :=
                  (case leadDistance of None \<Rightarrow> lead_distance c | Some d \<Rightarrow> Some d),
                steering := clamp (- 1) 1 steer_out,
                throttle := (if acceleration > 0 then clamp 0 1 acceleration else 0),
                braking := (if acceleration < 0 then clamp 0 1 (- acceleration) else 0)\<rparr>)))"

definition path_switch ::
  "('own, 'm) control_laws \<Rightarrow> real \<Rightarrow> 'm PathFollowerController
     \<Rightarrow> control_error option \<times> 'm PathFollowerController" where
  "path_switch L time c =
     (case mode c of
        SinglePath \<Rightarrow> (None, c)
      | MultiPath \<Rightarrow>
          (case path_trigger L time of
             None \<Rightarrow> (None, c)
           | Some index \<Rightarrow> changePath L index c))"

definition ACC_Synchronize ::
  "('own, 'm) control_laws \<Rightarrow> real \<Rightarrow> 'own \<Rightarrow> real option \<Rightarrow> 'm PathFollowerController
     \<Rightarrow> control_error option \<times> 'm PathFollowerController" where
  "ACC_Synchronize L time ownState leadDistance c =
     (case vector_at (paths c) (active_path c) of
        Inl _ \<Rightarrow> (Some OutOfRange, c)
      | Inr active \<Rightarrow> path_switch L time (steering_and_speed L ownState leadDistance active c))"

text \<open>
  Modelled from the spec: the invariant of section 3, "active path index is always a valid
  index into the path list".
\<close>

definition valid_controller :: "'m PathFollowerController \<Rightarrow> bool" where
  "valid_controller c = (active_path c < length (paths c))"

text \<open>
  Modelled from the spec: the bounds on the commands, steering in [-1, 1], throttle and
  braking in [0, 1] and "never both nonzero simultaneously".
\<close>

definition commands_in_range :: "'m PathFollowerController \<Rightarrow> bool" where
  "commands_in_range c =
     (- 1 \<le> steering c \<and> steering c \<le> 1 \<and>
      0 \<le> throttle c \<and> throttle c \<le> 1 \<and>
      0 \<le> braking c \<and> braking c \<le> 1 \<and>
      (throttle c = 0 \<or> braking c = 0))"

text \<open>
  Modelled from the spec: what a caller does with a controller, \<open>Synchronize\<close> and
  \<open>changePath\<close> in any order. An error is reported to the caller, who goes on with the
  controller as the call left it.
\<close>

datatype 'own controller_call =
  Synchronize_cmd real 'own "real option"
| changePath_cmd int

fun do_command ::
  "('own, 'm) control_laws \<Rightarrow> 'own controller_call \<Rightarrow> 'm PathFollowerController
     \<Rightarrow> control_error option \<times> 'm PathFollowerController" where
  "do_command L (Synchronize_cmd time ownState leadDistance) c =
     ACC_Synchronize L time ownState leadDistance c"
| "do_command L (changePath_cmd index) c = changePath L index c"

fun run_commands ::
  "('own, 'm) control_laws \<Rightarrow> 'own controller_call list \<Rightarrow> 'm PathFollowerController
     \<Rightarrow> 'm PathFollowerController" where
  "run_commands L [] c = c"
| "run_commands L (x # xs) c = run_commands L xs (snd (do_command L x c))"

subsection \<open>A small instance of the control laws\<close>

text \<open>
  A textbook PID with unit time step: the memory is the error integral and the previous
  error. The vehicle state is its lateral offset and its speed; the steering error is the
  negated offset.
\<close>

definition toy_laws :: "(real \<times> real, real \<times> real) control_laws" where
  "toy_laws =
     \<lparr>pid_law = (\<lambda>g (integral, previous) e.
                   (Kp g * e + Ki g * (integral + e) + Kd g * (e - previous), (integral + e, e))),
      fresh_memory = (0, 0),
      steering_error = (\<lambda>_ _ (offset, _). - offset),
      own_speed = snd,
      gap_gain = 1 / 10,
      path_trigger = (\<lambda>t. if \<bar>t - 6\<bar> < 1 / 100 then Some 1 else None)\<rparr>"

definition straight :: "real \<Rightarrow> path" where
  "straight x = \<lparr>control_points = [(x, - 70, 1 / 5), (x, 70, 1 / 5)], is_closed = False\<rparr>"

definition toy_controller :: "(real \<times> real) PathFollowerController" where
  "toy_controller =
     \<lparr>mode = MultiPath, paths = [straight (14 / 5), straight (32 / 5)], active_path = 0,
      target_speed = 10, following_time = 6 / 5, min_following_distance = 10,
      lead_distance = Some 100,
      speed_controller = \<lparr>gains = \<lparr>Kp = 2 / 5, Ki = 0, Kd = 0\<rparr>, memory = (0, 0)\<rparr>,
      steering_controller = \<lparr>gains = \<lparr>Kp = 2 / 5, Ki = 1 / 10, Kd = 1 / 5\<rparr>, memory = (0, 0)\<rparr>,
      look_ahead = 5, steering = 0, throttle = 0, braking = 0\<rparr>"

text \<open>The toy controller after one \<open>Synchronize\<close>: its memories are no longer fresh.\<close>

definition toy_driven :: "(real \<times> real) PathFollowerController" where
  "toy_driven = snd (ACC_Synchronize toy_laws 1 (1 / 2, 9) (Some 3) toy_controller)"

section \<open>The simulation loop (demos/synchrono/demo_highway/demo_SYN_highway.cpp)\<close>

text \<open>
  The loop at the end of \<open>main\<close>. The MPI manager, the agent, its system and its driver are
  declared outside the files at hand: \<open>'w\<close> is everything the loop reaches through them, and
  the calls the loop makes are parameters. \<open>driver_changePath\<close> is
  \<open>std::dynamic_pointer_cast<ChMulPathFollowerACCDriver>(driver)->changePath\<close>; on rank 0
  the driver is of that class.
\<close>

record 'w manager =
  IsOk :: "'w \<Rightarrow> bool"
  mpi_Advance :: "'w \<Rightarrow> 'w"
  mpi_Synchronize :: "'w \<Rightarrow> 'w"
  mpi_Update :: "'w \<Rightarrow> 'w"
  GetChTime :: "'w \<Rightarrow> real"
  driver_changePath :: "int \<Rightarrow> 'w \<Rightarrow> 'w"

text \<open>
  The calls of one run, in program order, are recorded next to the state: the log is not
  part of the program, it is what the claims about the order of the phases speak of.
\<close>

datatype phase = Advance_phase | Exchange_phase | changePath_request int | Update_phase

record 'w simulation =
  world :: 'w
  phase_log :: "phase list"

definition call_phase :: "phase \<Rightarrow> ('w \<Rightarrow> 'w) \<Rightarrow> 'w simulation \<Rightarrow> 'w simulation" where
  "call_phase ph f s = \<lparr>world = f (world s), phase_log = phase_log s @ [ph]\<rparr>"

text \<open>
  The condition of the \<open>if\<close> in the loop body:
  \<open>rank == 0 && std::abs(agent->GetSystem()->GetChTime() - 6) < 1e-2\<close>.
\<close>

definition path_switch_due :: "'w manager \<Rightarrow> int \<Rightarrow> 'w \<Rightarrow> bool" where
  "path_switch_due M rank w = (rank = 0 \<and> \<bar>GetChTime M w - 6\<bar> < 1 / 100)"

text \<open>
  The loop body: \<open>Advance\<close>, \<open>Synchronize\<close>, the conditional \<open>changePath(1)\<close>, \<open>Update\<close>. The
  block under \<open>#ifdef SENSOR\<close> moves a camera of the sensor visualisation only and is left
  out.
\<close>

definition loop_body :: "'w manager \<Rightarrow> int \<Rightarrow> 'w simulation \<Rightarrow> 'w simulation" where
  "loop_body M rank s =
     (let s1 = call_phase Advance_phase (mpi_Advance M) s;
          s2 = call_phase Exchange_phase (mpi_Synchronize M) s1;
          s3 = (if path_switch_due M rank (world s2)
                then call_phase (changePath_request 1) (driver_changePath M 1) s2
                else s2)
      in call_phase Update_phase (mpi_Update M) s3)"

text \<open>
  \<open>while (mpi_manager.IsOk()) { ... }\<close>. The loop may run forever; \<open>fuel\<close> bounds the number
  of iterations, and \<open>None\<close> means that the bound was reached with the loop still running.
\<close>

fun simulation_loop :: "'w manager \<Rightarrow> int \<Rightarrow> nat \<Rightarrow> 'w simulation \<Rightarrow> 'w simulation option" where
  "simulation_loop M rank 0 s = (if IsOk M (world s) then None else Some s)"
| "simulation_loop M rank (Suc fuel) s =
     (if IsOk M (world s) then simulation_loop M rank fuel (loop_body M rank s) else Some s)"

text \<open>The phases of one tick, with or without the path switch.\<close>

definition tick_phases :: "bool \<Rightarrow> phase list" where
  "tick_phases switch =
     [Advance_phase, Exchange_phase] @ (if switch then [changePath_request 1] else []) @
     [Update_phase]"

text \<open>The state after \<open>k\<close> iterations of the loop body.\<close>

definition after_ticks :: "'w manager \<Rightarrow> int \<Rightarrow> nat \<Rightarrow> 'w simulation \<Rightarrow> 'w simulation" where
  "after_ticks M rank k s = ((loop_body M rank) ^^ k) s"

text \<open>
  The schedule as the claim words it: a log is a sequence of ticks, each \<open>Advance\<close>, exchange,
  \<open>Update\<close>, with \<open>changePath\<close> requests only between two ticks.
\<close>

fun changes_at_tick_boundaries :: "phase list \<Rightarrow> bool" where
  "changes_at_tick_boundaries [] = True"
| "changes_at_tick_boundaries (changePath_request i # l) = changes_at_tick_boundaries l"
| "changes_at_tick_boundaries (Advance_phase # Exchange_phase # Update_phase # l) =
     changes_at_tick_boundaries l"
| "changes_at_tick_boundaries l = False"

subsection \<open>A small instance of the manager\<close>

text \<open>
  A world with a clock that \<open>Advance\<close> moves on by 1, the path the driver follows, and the
  path \<open>Update\<close> last saw the driver follow. The run ends when the clock reaches \<open>stop\<close>.
\<close>

record toy_world =
  clock :: real
  driver_path :: int
  path_seen :: int

definition toy_manager :: "real \<Rightarrow> toy_world manager" where
  "toy_manager stop =
     \<lparr>IsOk = (\<lambda>w. clock w < stop),
      mpi_Advance = (\<lambda>w. w\<lparr>clock := clock w + 1\<rparr>),
      mpi_Synchronize = (\<lambda>w. w),
      mpi_Update = (\<lambda>w. w\<lparr>path_seen := driver_path w\<rparr>),
      GetChTime = clock,
      driver_changePath = (\<lambda>i w. w\<lparr>driver_path := i\<rparr>)\<rparr>"

definition toy_start :: "real \<Rightarrow> toy_world simulation" where
  "toy_start t = \<lparr>world = \<lparr>clock = t, driver_path = 0, path_seen = 0\<rparr>, phase_log = []\<rparr>"

section \<open>Properties of asset levels\<close>

lemma GetAssetN_result:
  "GetAssetN num l =
     Inr (if unat num < length (assets l) then assets l ! unat num else Null, l)"
  by (simp add: GetAssetN_def vector_at_def)

text \<open>
  Claim C10. For every level and every index \<open>num\<close>, \<open>GetAssetN\<close> returns the stored pointer
  at position \<open>num\<close> when \<open>num\<close> is below the number of stored assets and the empty pointer
  otherwise; it never faults and leaves the level as it was. \<open>AddAsset\<close> appends at the end:
  every pointer stored before keeps its position and the frame of the level is unchanged.
\<close>

theorem GetAssetN_AddAsset_safe:
  "(\<exists>p. GetAssetN num l = Inr (p, l) \<and>
        (unat num < length (assets l) \<longrightarrow> p = assets l ! unat num) \<and>
        (length (assets l) \<le> unat num \<longrightarrow> p = Null)) \<and>
   assets (AddAsset a l) = assets l @ [a] \<and>
   length (assets (AddAsset a l)) = Suc (length (assets l)) \<and>
   (\<forall>i < length (assets l). assets (AddAsset a l) ! i = assets l ! i) \<and>
   levelframe (AddAsset a l) = levelframe l"
  by (simp add: GetAssetN_result AddAsset_def nth_append)

theorem GetAssetN_AddAsset_safe_witness:
  "GetAssetN 1 (AddAsset (Ptr (7::nat)) (AddAsset (Ptr 5) \<lparr>levelframe = (), assets = []\<rparr>))
     = Inr (Ptr 7, \<lparr>levelframe = (), assets = [Ptr 5, Ptr 7]\<rparr>) \<and>
   GetAssetN 2 \<lparr>levelframe = (), assets = [Ptr (5::nat), Ptr 7]\<rparr>
     = Inr (Null, \<lparr>levelframe = (), assets = [Ptr 5, Ptr 7]\<rparr>)"
  using GetAssetN_AddAsset_safe [of 1 "\<lparr>levelframe = (), assets = [Ptr (5::nat), Ptr 7]\<rparr>" Null]
    GetAssetN_AddAsset_safe [of 2 "\<lparr>levelframe = (), assets = [Ptr (5::nat), Ptr 7]\<rparr>" Null]
  by (simp add: AddAsset_def)

section \<open>Properties of the CityBus assembly\<close>

lemma and_then_simps [simp]:
  "and_then (Inl e) f = Inl e"
  "and_then (Inr x) f = f x"
  by (simp_all add: and_then_def)

lemma attach_tires_new:
  "veh_axles v = [[Null, Null], [Null, Null]] \<Longrightarrow>
   attach_tires mk v =
     Inr (v\<lparr>veh_axles := [[Ptr (mk ''FL''), Ptr (mk ''FR'')], [Ptr (mk ''RL''), Ptr (mk ''RR'')]]\<rparr>,
          Some (tire_mass (mk ''FL'')))"
  by (simp add: attach_tires_def InitializeTire_def vector_at_def Let_def)

lemma set_axles_step_tires:
  "set_axles_step h [[Ptr a, Ptr b], [Ptr c, Ptr d]] =
     Inr [[Ptr (with_step h a), Ptr (with_step h b)], [Ptr (with_step h c), Ptr (with_step h d)]]"
  by (simp add: with_step_def)

lemma set_axles_step_no_tires:
  "set_axles_step h [[Null, Null], [Null, Null]] =
     (if h > 0 then Inl NullPointer else Inr [[Null, Null], [Null, Null]])"
  by simp

lemma drag_step:
  "drag_defined c \<Longrightarrow>
   (if m_apply_drag c
            then and_then (read_member (m_Cd c)) (\<lambda>Cd.
                 and_then (read_member (m_area c)) (\<lambda>area.
                 and_then (read_member (m_air_density c)) (\<lambda>air_density.
                   Inr (v1\<lparr>veh_body := chassis_SetAerodynamicDrag E Cd area air_density (veh_body v1)\<rparr>))))
            else Inr v1) = Inr (v1\<lparr>veh_body := (if m_apply_drag c
      then chassis_SetAerodynamicDrag E (the (m_Cd c)) (the (m_area c)) (the (m_air_density c))
             (veh_body v1)
      else veh_body v1)\<rparr>)"
  by (auto simp add: drag_defined_def read_member_def)

lemma Initialize_supported:
  assumes "drag_defined c" and "tire_factory E (m_tireType c) = Some mk"
  shows "Initialize E c =
     Inr (c\<lparr>m_vehicle :=
              Some \<lparr>veh_stepsize = initial_step E c,
                    veh_axles =
                      [[Ptr (with_step (m_tire_step_size c) (mk ''FL'')),
                        Ptr (with_step (m_tire_step_size c) (mk ''FR''))],
                       [Ptr (with_step (m_tire_step_size c) (mk ''RL'')),
                        Ptr (with_step (m_tire_step_size c) (mk ''RR''))]],
                    veh_body = initial_body E c\<rparr>,
            m_powertrain := Some (new_powertrain E (initial_body E c)),
            m_tire_mass := Some (tire_mass (mk ''FL''))\<rparr>)"
  using assms(2)
  by (cases "m_tireType c")
     (auto simp add: Initialize_def Let_def drag_step [OF assms(1)] new_CityBus_Vehicle_def
       attach_tires_new set_axles_step_tires initial_step_def initial_body_def
       simp del: set_axles_step.simps set_wheels_step.simps set_tire_step.simps)

lemma Initialize_unsupported:
  assumes "drag_defined c" and "tire_factory E (m_tireType c) = None"
  shows "Initialize E c =
     (if m_tire_step_size c > 0 then Inl NullPointer
      else Inr (c\<lparr>m_vehicle :=
              Some \<lparr>veh_stepsize = initial_step E c,
                    veh_axles = [[Null, Null], [Null, Null]],
                    veh_body = initial_body E c\<rparr>,
            m_powertrain := Some (new_powertrain E (initial_body E c))\<rparr>))"
  using assms(2)
  by (cases "m_tireType c")
    (auto simp add: Initialize_def Let_def drag_step [OF assms(1)] new_CityBus_Vehicle_def
       set_axles_step_no_tires initial_step_def initial_body_def
       simp del: set_axles_step.simps set_wheels_step.simps set_tire_step.simps)

lemma Initialize_initialised:
  "Initialize E c = Inr c' \<Longrightarrow> initialised c'"
  by (auto simp add: Initialize_def Let_def and_then_def initialised_def
      split: sum.splits if_splits prod.splits)

lemma do_call_initialised:
  "initialised c \<Longrightarrow> \<exists>c'. do_call E x c = Inr c' \<and> initialised c' \<and> m_tire_mass c' = m_tire_mass c"
  by (cases x) (auto simp add: initialised_def CityBus_Synchronize_def CityBus_Advance_def Let_def)

lemma run_calls_initialised:
  "initialised c \<Longrightarrow> \<exists>c'. run_calls E calls c = Inr c' \<and> initialised c' \<and> m_tire_mass c' = m_tire_mass c"
proof (induction calls arbitrary: c)
  case Nil
  then show ?case by simp
next
  case (Cons x calls)
  from do_call_initialised [OF Cons.prems, of E x]
  obtain c1 where c1: "do_call E x c = Inr c1" "initialised c1" "m_tire_mass c1 = m_tire_mass c"
    by blast
  from Cons.IH [OF c1(2)] c1 show ?case by auto
qed

lemma run_ticks_initialised:
  "initialised c \<Longrightarrow> \<exists>c'. run_ticks E ticks c = Inr c' \<and> initialised c'"
  using run_calls_initialised [of c E] by (auto simp add: run_ticks_def)

lemma vehicle_tires_four [simp]:
  "vehicle_tires \<lparr>veh_stepsize = h, veh_axles = [[Ptr a, Ptr b], [Ptr c, Ptr d]], veh_body = x\<rparr> = [a, b, c, d]"
  by (simp add: vehicle_tires_def)

lemma vehicle_tires_none [simp]:
  "vehicle_tires \<lparr>veh_stepsize = h, veh_axles = [[Null, Null], [Null, Null]], veh_body = x\<rparr> = []"
  by (simp add: vehicle_tires_def)

lemma do_call_mass_recorded:
  assumes "tire_masses_kept E" and "mass_recorded m ms c" and "do_call E x c = Inr c'"
  shows "mass_recorded m ms c'"
proof -
  from assms(2) obtain v p where vp: "m_vehicle c = Some v" "m_powertrain c = Some p"
    and ms: "map tire_mass (vehicle_tires v) = ms" and m: "m_tire_mass c = Some m"
    by (auto simp add: mass_recorded_def)
  from assms(1) have
    adv: "\<And>h. map tire_mass (vehicle_tires (vehicle_Advance E h v)) = map tire_mass (vehicle_tires v)"
    and syn: "\<And>t st br tq r.
         map tire_mass (vehicle_tires (vehicle_Synchronize E t st br tq r v)) =
         map tire_mass (vehicle_tires v)"
    by (simp_all add: tire_masses_kept_def)
  show ?thesis
  proof (cases x)
    case (Synchronize_call t st br th r)
    with assms(3) vp have "c' = c\<lparr>m_powertrain := Some (powertrain_Synchronize E t th (GetDriveshaftSpeed E v) p),
        m_vehicle := Some (vehicle_Synchronize E t st br (GetOutputTorque E p) r v)\<rparr>"
      by (simp add: CityBus_Synchronize_def Let_def)
    then show ?thesis using m ms syn by (simp add: mass_recorded_def)
  next
    case (Advance_call h)
    with assms(3) vp have "c' = c\<lparr>m_powertrain := Some (powertrain_Advance E h p),
        m_vehicle := Some (vehicle_Advance E h v)\<rparr>"
      by (simp add: CityBus_Advance_def)
    then show ?thesis using m ms adv by (simp add: mass_recorded_def)
  qed
qed

lemma run_calls_mass_recorded:
  assumes "tire_masses_kept E"
  shows "mass_recorded m ms c \<Longrightarrow> run_calls E calls c = Inr c' \<Longrightarrow> mass_recorded m ms c'"
proof (induction calls arbitrary: c)
  case Nil
  then show ?case by simp
next
  case (Cons x calls)
  from Cons.prems(2) obtain c1 where c1: "do_call E x c = Inr c1" "run_calls E calls c1 = Inr c'"
    by (cases "do_call E x c") simp_all
  from do_call_mass_recorded [OF assms Cons.prems(1) c1(1)] have "mass_recorded m ms c1" .
  from Cons.IH [OF this c1(2)] show ?case .
qed

subsection \<open>The toy instance\<close>

lemma toy_Initialize: "Initialize toy toy_bus = Inr toy_ready"
  by (simp add: Initialize_def toy_def toy_bus_def CityBus_default_def toy_ready_def toy_vehicle_def
      new_CityBus_Vehicle_def attach_tires_def InitializeTire_def vector_at_def Let_def toy_tire_def)

lemma toy_run_1:
  "run_ticks toy [toy_tick 0 1] toy_ready =
     Inr (toy_ready\<lparr>m_powertrain := Some \<lparr>output_torque = 100, integrated = 1\<rparr>\<rparr>)"
  by (simp add: run_ticks_def tick_calls_def toy_tick_def CityBus_Synchronize_def CityBus_Advance_def toy_ready_def toy_def toy_vehicle_def)

lemma toy_drag_defined:
  "drag_defined (toy_bus\<lparr>m_vehicle_step_size := x, m_tire_step_size := y, m_tireType := z\<rparr>)"
  by (simp add: drag_defined_def toy_bus_def CityBus_default_def)

lemma toy_tire_masses_kept: "tire_masses_kept toy"
  by (simp add: tire_masses_kept_def toy_def vehicle_tires_def)

lemma toy_bus_drag_defined: "drag_defined toy_bus"
  by (simp add: drag_defined_def toy_bus_def CityBus_default_def)

lemma toy_factory: "tire_factory toy (m_tireType toy_bus) = Some (toy_tire 50)"
  by (simp add: toy_bus_def CityBus_default_def toy_def)

subsection \<open>The claims about the assembly\<close>

text \<open>
  Claim C1. In every tick of every run of an initialised assembly, \<open>Synchronize\<close> hands the
  vehicle the output torque of the powertrain as the previous tick left it (\<open>p\<close>), and only
  then synchronises the powertrain with the current driveshaft speed. So the torque the
  vehicle receives in the next tick (that of \<open>p1\<close>) was computed from the driveshaft speed of
  \<open>v\<close>, the vehicle before it advanced to \<open>v1\<close>: a lag of exactly one tick.
\<close>

theorem torque_one_tick_lag:
  assumes "Initialize E c0 = Inr cI" and "run_ticks E ticks cI = Inr c"
  shows "\<exists>v p c1 v1 p1 c2.
     m_vehicle c = Some v \<and> m_powertrain c = Some p \<and>
     run_ticks E [a] c = Inr c1 \<and>
     m_vehicle c1 = Some v1 \<and> m_powertrain c1 = Some p1 \<and>
     v1 = vehicle_Advance E (tick_step a)
            (vehicle_Synchronize E (tick_time a) (tick_steering a) (tick_braking a)
               (GetOutputTorque E p) (tick_terrain a) v) \<and>
     p1 = powertrain_Advance E (tick_step a)
            (powertrain_Synchronize E (tick_time a) (tick_throttle a) (GetDriveshaftSpeed E v) p) \<and>
     CityBus_Synchronize E t st br th r c1 = Inr c2 \<and>
     m_vehicle c2 = Some (vehicle_Synchronize E t st br (GetOutputTorque E p1) r v1) \<and>
     m_powertrain c2 = Some (powertrain_Synchronize E t th (GetDriveshaftSpeed E v1) p1)"
proof -
  have "initialised cI" using assms(1) by (rule Initialize_initialised)
  from run_ticks_initialised [OF this, of E ticks] assms(2) have "initialised c" by simp
  then obtain v p where vp: "m_vehicle c = Some v" "m_powertrain c = Some p"
    by (auto simp add: initialised_def)
  then show ?thesis
    by (simp add: run_ticks_def tick_calls_def CityBus_Synchronize_def CityBus_Advance_def Let_def)
qed

theorem torque_one_tick_lag_witness:
  "\<exists>c1 c2.
     run_ticks toy [toy_tick 1 1] (toy_ready\<lparr>m_powertrain := Some \<lparr>output_torque = 100, integrated = 1\<rparr>\<rparr>) = Inr c1 \<and>
     map_option (shaft_speed \<circ> veh_body) (m_vehicle c1) = Some 100 \<and>
     map_option output_torque (m_powertrain c1) = Some 100 \<and>
     CityBus_Synchronize toy 2 0 0 1 () c1 = Inr c2 \<and>
     map_option (applied_torque \<circ> veh_body) (m_vehicle c2) = Some 100 \<and>
     map_option output_torque (m_powertrain c2) = Some 0"
  using torque_one_tick_lag [OF toy_Initialize toy_run_1, of "toy_tick 1 1" 2 0 0 1 "()"]
  apply (simp add: toy_ready_def toy_def toy_vehicle_def toy_tick_def)
  apply (elim exE conjE)
  apply simp
  done

text \<open>
  Claim C2, as the code has it. \<open>Advance\<close> makes no check for a preceding \<open>Synchronize\<close>:
  on an initialised assembly it advances the powertrain and then the vehicle by \<open>step\<close> and
  returns, and every sequence of \<open>Synchronize\<close> and \<open>Advance\<close> calls, in any order, runs to
  its end without an error.
\<close>

theorem Advance_without_Synchronize:
  assumes "m_powertrain c = Some p" and "m_vehicle c = Some v"
  shows "CityBus_Advance E step c =
           Inr (c\<lparr>m_powertrain := Some (powertrain_Advance E step p),
                  m_vehicle := Some (vehicle_Advance E step v)\<rparr>) \<and>
         (\<forall>calls. \<exists>c'. run_calls E calls c = Inr c' \<and> initialised c')"
proof
  show "CityBus_Advance E step c =
           Inr (c\<lparr>m_powertrain := Some (powertrain_Advance E step p),
                  m_vehicle := Some (vehicle_Advance E step v)\<rparr>)"
    using assms by (simp add: CityBus_Advance_def)
  have "initialised c" using assms by (simp add: initialised_def)
  then show "\<forall>calls. \<exists>c'. run_calls E calls c = Inr c' \<and> initialised c'"
    using run_calls_initialised by blast
qed

text \<open>
  Against claim C2 as stated: \<open>Advance\<close> right after \<open>Initialize\<close>, with no \<open>Synchronize\<close> at
  all, is neither rejected nor skipped; it returns with the powertrain advanced.
\<close>

theorem Advance_without_Synchronize_counterexample:
  "Initialize toy toy_bus = Inr toy_ready \<and>
   CityBus_Advance toy 1 toy_ready =
     Inr (toy_ready\<lparr>m_powertrain := Some \<lparr>output_torque = 0, integrated = 1\<rparr>\<rparr>) \<and>
   toy_ready\<lparr>m_powertrain := Some \<lparr>output_torque = 0, integrated = 1\<rparr>\<rparr> \<noteq> toy_ready"
  by (simp add: toy_Initialize)
   (simp add: CityBus_Advance_def toy_ready_def toy_def toy_vehicle_def toy_bus_def CityBus_default_def)

theorem Advance_without_Synchronize_witness:
  "CityBus_Advance toy 2 toy_ready =
     Inr (toy_ready\<lparr>m_powertrain := Some \<lparr>output_torque = 0, integrated = 2\<rparr>\<rparr>) \<and>
   (\<exists>c'. run_calls toy [Advance_call 1, Advance_call 1, Synchronize_call 0 0 0 1 ()] toy_ready = Inr c' \<and>
         initialised c')"
proof -
  have p: "m_powertrain toy_ready = Some \<lparr>output_torque = 0, integrated = 0\<rparr>"
    and v: "m_vehicle toy_ready = Some toy_vehicle"
    by (simp_all add: toy_ready_def)
  have eq: "toy_ready\<lparr>m_powertrain := Some (powertrain_Advance toy 2 \<lparr>output_torque = 0, integrated = 0\<rparr>),
                  m_vehicle := Some (vehicle_Advance toy 2 toy_vehicle)\<rparr> =
        toy_ready\<lparr>m_powertrain := Some \<lparr>output_torque = 0, integrated = 2\<rparr>\<rparr>"
    by (simp add: toy_def toy_ready_def toy_vehicle_def)
  from Advance_without_Synchronize [OF p v, of toy 2] eq show ?thesis
    by metis
qed

text \<open>
  Claim C3, as the code has it. \<open>Initialize\<close> reports no error for a step size. A vehicle
  step size that is not strictly positive leaves the vehicle at the base step, a tire step
  size that is not strictly positive leaves every tire at the step size it was created
  with; a step size above zero is applied, to the vehicle or to each of the four tires.
\<close>

theorem Initialize_step_sizes:
  assumes "drag_defined c"
  shows "(\<forall>mk. tire_factory E (m_tireType c) = Some mk \<longrightarrow>
            (\<exists>c' v. Initialize E c = Inr c' \<and> m_vehicle c' = Some v \<and>
               veh_stepsize v =
                 (if m_vehicle_step_size c > 0 then m_vehicle_step_size c else base_step E) \<and>
               vehicle_tires v =
                 map (\<lambda>name. if m_tire_step_size c > 0
                              then (mk name)\<lparr>tire_stepsize := m_tire_step_size c\<rparr>
                              else mk name)
                   [''FL'', ''FR'', ''RL'', ''RR''])) \<and>
         (tire_factory E (m_tireType c) = None \<and> m_tire_step_size c \<le> 0 \<longrightarrow>
            (\<exists>c' v. Initialize E c = Inr c' \<and> m_vehicle c' = Some v \<and>
               veh_stepsize v =
                 (if m_vehicle_step_size c > 0 then m_vehicle_step_size c else base_step E) \<and>
               vehicle_tires v = []))"
proof (intro conjI allI impI)
  fix mk
  assume "tire_factory E (m_tireType c) = Some mk"
  from Initialize_supported [OF assms this]
  show "\<exists>c' v. Initialize E c = Inr c' \<and> m_vehicle c' = Some v \<and>
               veh_stepsize v =
                 (if m_vehicle_step_size c > 0 then m_vehicle_step_size c else base_step E) \<and>
               vehicle_tires v =
                 map (\<lambda>name. if m_tire_step_size c > 0
                              then (mk name)\<lparr>tire_stepsize := m_tire_step_size c\<rparr>
                              else mk name)
                   [''FL'', ''FR'', ''RL'', ''RR'']"
    by (simp add: initial_step_def with_step_def)
next
  assume "tire_factory E (m_tireType c) = None \<and> m_tire_step_size c \<le> 0"
  with Initialize_unsupported [OF assms, of E]
  show "\<exists>c' v. Initialize E c = Inr c' \<and> m_vehicle c' = Some v \<and>
               veh_stepsize v =
                 (if m_vehicle_step_size c > 0 then m_vehicle_step_size c else base_step E) \<and>
               vehicle_tires v = []"
    by (simp add: initial_step_def)
qed

text \<open>
  Against claim C3 as stated: with the vehicle step size set to 0 and the tire step size
  to -2, \<open>Initialize\<close> succeeds; vehicle and tires run at the base step.
\<close>

theorem Initialize_step_sizes_counterexample:
  "Initialize toy (toy_bus\<lparr>m_vehicle_step_size := 0, m_tire_step_size := - 2\<rparr>) =
     Inr (toy_ready\<lparr>m_vehicle_step_size := 0, m_tire_step_size := - 2\<rparr>) \<and>
   map_option veh_stepsize (m_vehicle (toy_ready\<lparr>m_vehicle_step_size := 0, m_tire_step_size := - 2\<rparr>)) =
     Some (1 / 1000) \<and>
   map_option (map tire_stepsize \<circ> vehicle_tires)
       (m_vehicle (toy_ready\<lparr>m_vehicle_step_size := 0, m_tire_step_size := - 2\<rparr>)) =
     Some [1 / 1000, 1 / 1000, 1 / 1000, 1 / 1000]"
  by (simp add: Initialize_def toy_def toy_bus_def CityBus_default_def toy_ready_def toy_vehicle_def
      new_CityBus_Vehicle_def attach_tires_def InitializeTire_def vector_at_def Let_def toy_tire_def)

theorem Initialize_step_sizes_witness:
  "(\<exists>c' v. Initialize toy (toy_bus\<lparr>m_vehicle_step_size := 1 / 500, m_tire_step_size := 0, m_tireType := RIGID\<rparr>) = Inr c' \<and>
      m_vehicle c' = Some v \<and> veh_stepsize v = 1 / 500 \<and>
      vehicle_tires v = [toy_tire 60 ''FL'', toy_tire 60 ''FR'', toy_tire 60 ''RL'', toy_tire 60 ''RR'']) \<and>
   (\<exists>c' v. Initialize toy (toy_bus\<lparr>m_vehicle_step_size := - 1, m_tire_step_size := 1 / 2000, m_tireType := TMEASY\<rparr>) = Inr c' \<and>
      m_vehicle c' = Some v \<and> veh_stepsize v = 1 / 1000 \<and>
      map tire_stepsize (vehicle_tires v) = [1 / 2000, 1 / 2000, 1 / 2000, 1 / 2000]) \<and>
   (\<exists>c' v. Initialize toy (toy_bus\<lparr>m_vehicle_step_size := - 1, m_tire_step_size := - 1, m_tireType := OTHER_TIRE_MODEL\<rparr>) = Inr c' \<and>
      m_vehicle c' = Some v \<and> veh_stepsize v = 1 / 1000 \<and> vehicle_tires v = [])"
proof (intro conjI)
  show "\<exists>c' v. Initialize toy (toy_bus\<lparr>m_vehicle_step_size := 1 / 500, m_tire_step_size := 0, m_tireType := RIGID\<rparr>) = Inr c' \<and>
      m_vehicle c' = Some v \<and> veh_stepsize v = 1 / 500 \<and>
      vehicle_tires v = [toy_tire 60 ''FL'', toy_tire 60 ''FR'', toy_tire 60 ''RL'', toy_tire 60 ''RR'']"
    using Initialize_step_sizes [OF toy_drag_defined [where x = "1 / 500" and y = 0 and z = RIGID], of toy]
    by (simp add: toy_def)
  show "\<exists>c' v. Initialize toy (toy_bus\<lparr>m_vehicle_step_size := - 1, m_tire_step_size := 1 / 2000, m_tireType := TMEASY\<rparr>) = Inr c' \<and>
      m_vehicle c' = Some v \<and> veh_stepsize v = 1 / 1000 \<and>
      map tire_stepsize (vehicle_tires v) = [1 / 2000, 1 / 2000, 1 / 2000, 1 / 2000]"
    using Initialize_step_sizes [OF toy_drag_defined [where x = "- 1" and y = "1 / 2000" and z = TMEASY], of toy]
    by (auto simp add: toy_def)
  show "\<exists>c' v. Initialize toy (toy_bus\<lparr>m_vehicle_step_size := - 1, m_tire_step_size := - 1, m_tireType := OTHER_TIRE_MODEL\<rparr>) = Inr c' \<and>
      m_vehicle c' = Some v \<and> veh_stepsize v = 1 / 1000 \<and> vehicle_tires v = []"
    using Initialize_step_sizes [OF toy_drag_defined [where x = "- 1" and y = "- 1" and z = OTHER_TIRE_MODEL], of toy]
    by (simp add: toy_def)
qed

text \<open>
  The total mass where \<open>Initialize\<close> attaches tires. For an assembly initialised with one of
  the tire models \<open>RIGID\<close>, \<open>RIGID_MESH\<close>, \<open>TMEASY\<close>, and after any calls of \<open>Synchronize\<close>
  and \<open>Advance\<close> (the vehicle keeping the masses of its tires), \<open>GetTotalMass\<close> is the vehicle
  mass plus four times the mass of the front left tire; that is the vehicle mass plus the
  masses of the four tires when the four tires report the same mass.
\<close>

theorem GetTotalMass_four_tires:
  assumes "drag_defined c" and "tire_factory E (m_tireType c) = Some mk"
    and "Initialize E c = Inr cI"
    and "tire_masses_kept E" and "run_calls E calls cI = Inr c'"
  shows "\<exists>v. m_vehicle c' = Some v \<and>
           map tire_mass (vehicle_tires v) =
             [tire_mass (mk ''FL''), tire_mass (mk ''FR''), tire_mass (mk ''RL''), tire_mass (mk ''RR'')] \<and>
           GetTotalMass E c' = Inr (GetVehicleMass E v + 4 * tire_mass (mk ''FL'')) \<and>
           (tire_mass (mk ''FR'') = tire_mass (mk ''FL'') \<and>
            tire_mass (mk ''RL'') = tire_mass (mk ''FL'') \<and>
            tire_mass (mk ''RR'') = tire_mass (mk ''FL'') \<longrightarrow>
              GetTotalMass E c' = Inr (GetVehicleMass E v + sum_list (map tire_mass (vehicle_tires v))))"
proof -
  let ?ms = "[tire_mass (mk ''FL''), tire_mass (mk ''FR''), tire_mass (mk ''RL''), tire_mass (mk ''RR'')]"
  from Initialize_supported [OF assms(1,2)] assms(3)
  have "mass_recorded (tire_mass (mk ''FL'')) ?ms cI"
    by (auto simp add: mass_recorded_def with_step_def)
  from run_calls_mass_recorded [OF assms(4) this assms(5)]
  obtain v where v: "m_vehicle c' = Some v" "map tire_mass (vehicle_tires v) = ?ms"
    and m: "m_tire_mass c' = Some (tire_mass (mk ''FL''))"
    by (auto simp add: mass_recorded_def)
  then show ?thesis
    by (simp add: GetTotalMass_def read_member_def)
qed

theorem GetTotalMass_four_tires_witness:
  "\<exists>c' v. run_calls toy [Synchronize_call 0 0 0 1 (), Advance_call 1] toy_ready = Inr c' \<and>
     m_vehicle c' = Some v \<and>
     map tire_mass (vehicle_tires v) = [50, 50, 50, 50] \<and>
     GetTotalMass toy c' = Inr 13200 \<and>
     GetTotalMass toy c' = Inr (13000 + sum_list (map tire_mass (vehicle_tires v)))"
proof -
  obtain c' where c': "run_calls toy [Synchronize_call 0 0 0 1 (), Advance_call 1] toy_ready = Inr c'"
    by (simp add: CityBus_Synchronize_def CityBus_Advance_def toy_ready_def)
  from GetTotalMass_four_tires [OF toy_bus_drag_defined toy_factory toy_Initialize
      toy_tire_masses_kept c']
  obtain v where "m_vehicle c' = Some v"
    and "map tire_mass (vehicle_tires v) = [50, 50, 50, 50]"
    and "GetTotalMass toy c' = Inr 13200"
    and "GetTotalMass toy c' = Inr (13000 + sum_list (map tire_mass (vehicle_tires v)))"
    by (auto simp add: toy_def toy_tire_def)
  with c' show ?thesis
    by (intro exI [where x = c'] exI [where x = v]) simp
qed

text \<open>
  Claim C4 (the total mass is the vehicle mass plus the masses of the tires) at an assembly
  with a tire model of the \<open>default\<close> branch: \<open>Initialize\<close> succeeds, attaches no tire and
  leaves \<open>m_tire_mass\<close> unassigned, and \<open>GetTotalMass\<close> reads the member that was never
  initialised instead of returning the vehicle mass.
\<close>

theorem GetTotalMass_unassigned_tire_mass:
  "Initialize toy (toy_bus\<lparr>m_tireType := OTHER_TIRE_MODEL\<rparr>) = Inr toy_bare \<and>
   map_option vehicle_tires (m_vehicle toy_bare) = Some [] \<and>
   GetTotalMass toy toy_bare = Inl Uninitialised"
  by (simp add: Initialize_def toy_def toy_bus_def CityBus_default_def toy_bare_def toy_vehicle_def
      new_CityBus_Vehicle_def Let_def GetTotalMass_def read_member_def)

section \<open>Properties of the sub-stepping\<close>

lemma tire_substeps_whole:
  "0 < h \<Longrightarrow> tire_substeps f h k (real k * h) w = ((f h) ^^ k) w"
proof (induction k arbitrary: w)
  case 0
  then show ?case by simp
next
  case (Suc k)
  have "h \<le> real (Suc k) * h" using Suc.prems by (simp add: algebra_simps)
  then have m: "min h (real (Suc k) * h) = h" by simp
  have r: "real (Suc k) * h - h = real k * h" by (simp add: algebra_simps)
  show ?case
    by (simp only: tire_substeps.simps m r Suc.IH [OF Suc.prems]) (simp add: funpow_swap1)
qed

lemma tire_Advance_whole:
  assumes "0 < tire_stepsize tire"
  shows "tire_Advance f (real k * tire_stepsize tire) tire =
         tire\<lparr>tire_state := ((f (tire_stepsize tire)) ^^ k) (tire_state tire)\<rparr>"
  using assms by (simp add: tire_Advance_def tire_substeps_whole)

lemma tire_Advance_repeated:
  assumes "0 < tire_stepsize tire"
  shows "((tire_Advance f (real k * tire_stepsize tire)) ^^ N) tire =
         tire\<lparr>tire_state := ((f (tire_stepsize tire)) ^^ (N * k)) (tire_state tire)\<rparr>"
proof (induction N)
  case 0
  then show ?case by simp
next
  case (Suc N)
  have "tire_stepsize (tire\<lparr>tire_state := ((f (tire_stepsize tire)) ^^ (N * k)) (tire_state tire)\<rparr>)
        = tire_stepsize tire" by simp
  with assms tire_Advance_whole [where tire = "tire\<lparr>tire_state := ((f (tire_stepsize tire)) ^^ (N * k)) (tire_state tire)\<rparr>" and f = f and k = k]
  show ?case by (simp add: Suc.IH funpow_add)
qed

lemma tire_Advance_consistent:
  assumes "0 < tire_stepsize tire" and "S = real k * tire_stepsize tire"
  shows "((tire_Advance f S) ^^ N) tire = tire_Advance f (real N * S) tire"
proof -
  have eq: "real N * (real k * tire_stepsize tire) = real (N * k) * tire_stepsize tire" by simp
  have "tire_Advance f (real (N * k) * tire_stepsize tire) tire =
      tire\<lparr>tire_state := ((f (tire_stepsize tire)) ^^ (N * k)) (tire_state tire)\<rparr>"
    by (rule tire_Advance_whole [OF assms(1)])
  moreover have "((tire_Advance f (real k * tire_stepsize tire)) ^^ N) tire =
      tire\<lparr>tire_state := ((f (tire_stepsize tire)) ^^ (N * k)) (tire_state tire)\<rparr>"
    by (rule tire_Advance_repeated [OF assms(1)])
  ultimately show ?thesis unfolding assms(2) eq by simp
qed

lemma set_wheel_tires: "set (wheel_tires wheels) = {tire. Ptr tire \<in> set wheels}"
  by (induction wheels rule: wheel_tires.induct) auto

lemma map_funpow: "((map (g :: 'a \<Rightarrow> 'a)) ^^ N) xs = map (g ^^ N) xs"
proof (induction N)
  case 0
  show ?case by simp
next
  case (Suc N)
  have "((map g) ^^ Suc N) xs = map g (((map g) ^^ N) xs)" by simp
  also have "\<dots> = map g (map (g ^^ N) xs)" by (simp only: Suc.IH)
  also have "\<dots> = map (g ^^ Suc N) xs" by simp
  finally show ?case .
qed

lemma map_shared_ptr_funpow:
  "((map_shared_ptr (g :: 'a \<Rightarrow> 'a)) ^^ N) wheel = map_shared_ptr (g ^^ N) wheel"
proof (induction N)
  case 0
  show ?case by (cases wheel) simp_all
next
  case (Suc N)
  have "((map_shared_ptr g) ^^ Suc N) wheel = map_shared_ptr g (((map_shared_ptr g) ^^ N) wheel)"
    by simp
  also have "\<dots> = map_shared_ptr g (map_shared_ptr (g ^^ N) wheel)" by (simp only: Suc.IH)
  also have "\<dots> = map_shared_ptr (g ^^ Suc N) wheel" by (cases wheel) simp_all
  finally show ?case .
qed

lemma axles_consistent:
  assumes "\<forall>tire \<in> set (wheel_tires (concat axles)). divides_step S tire"
  shows "((map (map (map_shared_ptr (tire_Advance f S)))) ^^ N) axles =
         map (map (map_shared_ptr (tire_Advance f (real N * S)))) axles"
proof -
  have "map_shared_ptr ((tire_Advance f S) ^^ N) wheel =
        map_shared_ptr (tire_Advance f (real N * S)) wheel"
    if "wheel \<in> set axle" and "axle \<in> set axles" for wheel axle
  proof (cases wheel)
    case Null
    then show ?thesis by simp
  next
    case (Ptr tire)
    with that assms have "divides_step S tire"
      by (auto simp add: set_wheel_tires)
    then obtain k where "0 < tire_stepsize tire" "S = real k * tire_stepsize tire"
      by (auto simp add: divides_step_def)
    from tire_Advance_consistent [OF this] Ptr show ?thesis by simp
  qed
  then show ?thesis
    by (simp add: map_funpow map_shared_ptr_funpow)
qed

lemma substepping_Advance_axles:
  "veh_axles (((substepping_Advance bi ti S) ^^ N) v) =
     ((map (map (map_shared_ptr (tire_Advance ti S)))) ^^ N) (veh_axles v)"
  by (induction N) (simp_all add: substepping_Advance_def)

lemma run_Advance_calls:
  assumes "m_vehicle c = Some v" and "m_powertrain c = Some p"
  shows "\<exists>cN. run_calls E (replicate N (Advance_call S)) c = Inr cN \<and>
           m_vehicle cN = Some (((vehicle_Advance E S) ^^ N) v) \<and>
           m_powertrain cN = Some (((powertrain_Advance E S) ^^ N) p)"
  using assms
proof (induction N arbitrary: c v p)
  case 0
  then show ?case by simp
next
  case (Suc N)
  let ?c1 = "c\<lparr>m_powertrain := Some (powertrain_Advance E S p),
                 m_vehicle := Some (vehicle_Advance E S v)\<rparr>"
  have step: "CityBus_Advance E S c = Inr ?c1" using Suc.prems by (simp add: CityBus_Advance_def)
  have "m_vehicle ?c1 = Some (vehicle_Advance E S v)" "m_powertrain ?c1 = Some (powertrain_Advance E S p)"
    by simp_all
  from Suc.IH [OF this] step show ?case by (simp add: funpow_swap1)
qed

lemma substep_ready_divides:
  "\<forall>tire \<in> set (vehicle_tires (substep_vehicle 0)). divides_step 1 tire"
proof -
  have "(1::real) = real 2 * (1 / 2)" by simp
  then have "\<exists>k::nat. (1::real) = real k * (1 / 2)" by (rule exI)
  then show ?thesis
    by (simp add: substep_vehicle_def vehicle_tires_def divides_step_def toy_tire_def)
qed

lemma euler_four_substeps: "tire_substeps euler_tire (1 / 2) 4 2 0 = 65 / 16"
  by (simp add: eval_nat_numeral euler_tire_def)

lemma substep_toy_one_call:
  "CityBus_Advance substep_toy 2 substep_ready =
     Inr (substep_ready\<lparr>m_powertrain := Some \<lparr>output_torque = 0, integrated = 2\<rparr>,
            m_vehicle := Some (substep_vehicle (65 / 16))\<rparr>)"
  by (simp add: CityBus_Advance_def substep_ready_def toy_ready_def substep_toy_def toy_def
      substepping_Advance_def substep_vehicle_def tire_Advance_def toy_tire_def
      euler_four_substeps)

text \<open>
  Claim C5. Let the vehicle advance as the spec describes, and let every tire's step size
  divide \<open>vehicleStep\<close>. Then \<open>N\<close> calls of \<open>Advance(vehicleStep)\<close> and one call of
  \<open>Advance(N * vehicleStep)\<close> both return, and leave the same wheels: every tire in the same
  state.
\<close>

theorem substepping_consistent:
  assumes "vehicle_Advance E = substepping_Advance integrate_body integrate_tire"
    and "m_vehicle c = Some v" and "m_powertrain c = Some p"
    and "\<forall>tire \<in> set (vehicle_tires v). divides_step vehicleStep tire"
  shows "\<exists>cN c1 vN v1.
           run_calls E (replicate N (Advance_call vehicleStep)) c = Inr cN \<and>
           CityBus_Advance E (real N * vehicleStep) c = Inr c1 \<and>
           m_vehicle cN = Some vN \<and> m_vehicle c1 = Some v1 \<and>
           veh_axles vN = veh_axles v1"
proof -
  from run_Advance_calls [OF assms(2,3), of E N vehicleStep]
  obtain cN where cN: "run_calls E (replicate N (Advance_call vehicleStep)) c = Inr cN"
    "m_vehicle cN = Some (((vehicle_Advance E vehicleStep) ^^ N) v)"
    by blast
  have c1: "CityBus_Advance E (real N * vehicleStep) c =
      Inr (c\<lparr>m_powertrain := Some (powertrain_Advance E (real N * vehicleStep) p),
             m_vehicle := Some (vehicle_Advance E (real N * vehicleStep) v)\<rparr>)"
    using assms(2,3) by (simp add: CityBus_Advance_def)
  have "veh_axles (((vehicle_Advance E vehicleStep) ^^ N) v) =
        veh_axles (vehicle_Advance E (real N * vehicleStep) v)"
    using axles_consistent [where axles = "veh_axles v" and S = vehicleStep and f = integrate_tire and N = N] assms(4)
    by (simp add: assms(1) substepping_Advance_axles vehicle_tires_def)
       (simp add: substepping_Advance_def)
  with cN c1 show ?thesis by simp
qed

theorem substepping_consistent_witness:
  "\<exists>cN vN.
     run_calls substep_toy [Advance_call 1, Advance_call 1] substep_ready = Inr cN \<and>
     CityBus_Advance substep_toy 2 substep_ready =
       Inr (substep_ready\<lparr>m_powertrain := Some \<lparr>output_torque = 0, integrated = 2\<rparr>,
              m_vehicle := Some (substep_vehicle (65 / 16))\<rparr>) \<and>
     m_vehicle cN = Some vN \<and>
     veh_axles vN = veh_axles (substep_vehicle (65 / 16))"
proof -
  have E: "vehicle_Advance substep_toy = substepping_Advance (\<lambda>h b. b) euler_tire"
    by (simp add: substep_toy_def)
  have v: "m_vehicle substep_ready = Some (substep_vehicle 0)"
    and p: "m_powertrain substep_ready = Some \<lparr>output_torque = 0, integrated = 0\<rparr>"
    by (simp_all add: substep_ready_def toy_ready_def)
  have two: "replicate 2 (Advance_call 1 :: unit call) = [Advance_call 1, Advance_call 1]"
    by (simp add: eval_nat_numeral)
  from substepping_consistent [OF E v p substep_ready_divides, of 2]
  show ?thesis
    by (auto simp add: two substep_toy_one_call)
qed

section \<open>Properties of the path-follower controller\<close>

lemma changePath_valid: "valid_controller c \<Longrightarrow> valid_controller (snd (changePath L index c))"
  by (auto simp add: changePath_def valid_controller_def)

lemma changePath_commands:
  "commands_in_range (snd (changePath L index c)) = commands_in_range c"
  by (simp add: changePath_def commands_in_range_def)

lemma changePath_mode: "mode (snd (changePath L index c)) = mode c"
  by (simp add: changePath_def)

lemma path_switch_valid: "valid_controller c \<Longrightarrow> valid_controller (snd (path_switch L time c))"
  by (simp add: path_switch_def changePath_valid split: path_mode.splits option.splits)

lemma path_switch_commands:
  "commands_in_range (snd (path_switch L time c)) = commands_in_range c"
  by (simp add: path_switch_def changePath_commands split: path_mode.splits option.splits)

lemma path_switch_mode: "mode (snd (path_switch L time c)) = mode c"
  by (simp add: path_switch_def changePath_mode split: path_mode.splits option.splits)

lemma steering_and_speed_kept:
  "paths (steering_and_speed L own lead active c) = paths c \<and>
   active_path (steering_and_speed L own lead active c) = active_path c \<and>
   mode (steering_and_speed L own lead active c) = mode c"
  by (simp add: steering_and_speed_def Let_def split: prod.splits)

lemma steering_and_speed_commands:
  "commands_in_range (steering_and_speed L own lead active c)"
  by (simp add: steering_and_speed_def Let_def commands_in_range_def clamp_def split: prod.splits)

lemma ACC_Synchronize_valid:
  "valid_controller c \<Longrightarrow> valid_controller (snd (ACC_Synchronize L time own lead c))"
proof -
  assume "valid_controller c"
  then have "valid_controller (steering_and_speed L own lead (paths c ! active_path c) c)"
    by (simp add: valid_controller_def steering_and_speed_kept)
  then show ?thesis
    using \<open>valid_controller c\<close>
    by (simp add: ACC_Synchronize_def vector_at_def valid_controller_def [of c] path_switch_valid)
qed

lemma ACC_Synchronize_mode: "mode (snd (ACC_Synchronize L time own lead c)) = mode c"
  by (simp add: ACC_Synchronize_def path_switch_mode steering_and_speed_kept split: sum.splits)

lemma ACC_Synchronize_commands:
  "valid_controller c \<Longrightarrow> commands_in_range (snd (ACC_Synchronize L time own lead c))"
  by (simp add: ACC_Synchronize_def vector_at_def valid_controller_def path_switch_commands
      steering_and_speed_commands)

lemma ACC_Synchronize_continues:
  assumes "valid_controller c" and "mode c = SinglePath \<or> path_trigger L time = None"
  shows "fst (ACC_Synchronize L time own lead c) = None"
  using assms
  by (auto simp add: ACC_Synchronize_def vector_at_def valid_controller_def path_switch_def
      steering_and_speed_kept split: path_mode.splits)

lemma new_controller_valid:
  "new_controller L ps speed time_gap min_distance distance sg tg ahead = Inr c \<Longrightarrow> valid_controller c"
  by (auto simp add: new_controller_def valid_controller_def split: if_splits)

lemma run_commands_valid:
  "valid_controller c \<Longrightarrow> valid_controller (run_commands L cmds c)"
proof (induction cmds arbitrary: c)
  case Nil
  then show ?case by simp
next
  case (Cons x cmds)
  have "valid_controller (snd (do_command L x c))"
    using Cons.prems by (cases x) (simp_all add: ACC_Synchronize_valid changePath_valid)
  then show ?case using Cons.IH by simp
qed

lemma run_commands_mode: "mode (run_commands L cmds c) = mode c"
proof (induction cmds arbitrary: c)
  case Nil
  then show ?case by simp
next
  case (Cons x cmds)
  have "mode (snd (do_command L x c)) = mode c"
    by (cases x) (simp_all add: ACC_Synchronize_mode changePath_mode)
  then show ?case using Cons.IH by simp
qed

lemma toy_new_controller:
  "new_controller toy_laws [straight (14 / 5), straight (32 / 5)] 10 (6 / 5) 10 (Some 100)
     \<lparr>Kp = 2 / 5, Ki = 0, Kd = 0\<rparr> \<lparr>Kp = 2 / 5, Ki = 1 / 10, Kd = 1 / 5\<rparr> 5 = Inr toy_controller"
  by (simp add: new_controller_def toy_controller_def toy_laws_def straight_def)

lemma toy_Synchronize_brake:
  "ACC_Synchronize toy_laws 1 (1 / 2, 9) (Some 3) toy_controller =
     (None, toy_controller
        \<lparr>lead_distance := Some 3,
         speed_controller := \<lparr>gains = \<lparr>Kp = 2 / 5, Ki = 0, Kd = 0\<rparr>, memory = (1, 1)\<rparr>,
         steering_controller :=
           \<lparr>gains = \<lparr>Kp = 2 / 5, Ki = 1 / 10, Kd = 1 / 5\<rparr>, memory = (- (1 / 2), - (1 / 2))\<rparr>,
         steering := - (7 / 20), throttle := 0, braking := 1 / 2\<rparr>)"
  by (simp add: ACC_Synchronize_def vector_at_def path_switch_def steering_and_speed_def
      pid_step_def target_acceleration_def desired_gap_def clamp_def toy_controller_def
      toy_laws_def Let_def)

lemma toy_Synchronize_switch:
  "ACC_Synchronize toy_laws 6 (- 10, 30) (Some 3) toy_controller =
     (None, toy_controller
        \<lparr>active_path := 1, lead_distance := Some 3,
         speed_controller := \<lparr>gains = \<lparr>Kp = 2 / 5, Ki = 0, Kd = 0\<rparr>, memory = (- 20, - 20)\<rparr>,
         steering := 1, throttle := 0, braking := 1\<rparr>)"
  by (simp add: ACC_Synchronize_def vector_at_def path_switch_def steering_and_speed_def
      pid_step_def target_acceleration_def desired_gap_def clamp_def toy_controller_def
      toy_laws_def Let_def changePath_def)

lemma reset_memory: "pc\<lparr>memory := m\<rparr> = \<lparr>gains = gains pc, memory = m\<rparr>"
  by (cases pc) simp

lemma toy_driven_eq:
  "toy_driven = toy_controller
        \<lparr>lead_distance := Some 3,
         speed_controller := \<lparr>gains = \<lparr>Kp = 2 / 5, Ki = 0, Kd = 0\<rparr>, memory = (1, 1)\<rparr>,
         steering_controller :=
           \<lparr>gains = \<lparr>Kp = 2 / 5, Ki = 1 / 10, Kd = 1 / 5\<rparr>, memory = (- (1 / 2), - (1 / 2))\<rparr>,
         steering := - (7 / 20), throttle := 0, braking := 1 / 2\<rparr>"
  by (simp add: toy_driven_def toy_Synchronize_brake)

lemma toy_fresh_outputs:
  "pid_outputs toy_laws \<lparr>gains = \<lparr>Kp = 2 / 5, Ki = 1 / 10, Kd = 1 / 5\<rparr>, memory = (0, 0)\<rparr> [1, 1] =
     [7 / 10, 3 / 5]"
  by (simp add: pid_step_def toy_laws_def)

lemma toy_driven_outputs:
  "pid_outputs toy_laws (steering_controller toy_driven) [1, 1] = [3 / 4, 11 / 20]"
  by (simp add: toy_driven_eq pid_step_def toy_laws_def)

subsection \<open>The claims about the controller\<close>

text \<open>
  Claim C6. \<open>changePath(index)\<close> succeeds exactly when \<open>0 <= index < pathCount\<close>; for every
  other index it fails with the out-of-range error and leaves the controller, active path
  index included, as it was. Called with the active index it changes nothing, and a second
  call with the same index changes nothing after the first.
\<close>

theorem changePath_validates_index:
  "(fst (changePath L index c) = None \<longleftrightarrow> 0 \<le> index \<and> index < int (length (paths c))) \<and>
   (\<not> (0 \<le> index \<and> index < int (length (paths c))) \<longrightarrow>
      changePath L index c = (Some OutOfRange, c)) \<and>
   snd (changePath L (int (active_path c)) c) = c \<and>
   changePath L index (snd (changePath L index c)) =
     (fst (changePath L index c), snd (changePath L index c))"
  by (simp add: changePath_def)

theorem changePath_validates_index_witness:
  "changePath toy_laws 2 toy_controller = (Some OutOfRange, toy_controller) \<and>
   changePath toy_laws (- 1) toy_controller = (Some OutOfRange, toy_controller) \<and>
   changePath toy_laws 0 toy_controller = (None, toy_controller) \<and>
   fst (changePath toy_laws 1 toy_controller) = None"
  using changePath_validates_index [of toy_laws 2 toy_controller]
    changePath_validates_index [of toy_laws "- 1" toy_controller]
    changePath_validates_index [of toy_laws 0 toy_controller]
    changePath_validates_index [of toy_laws 1 toy_controller]
  by (simp add: toy_controller_def) (simp add: changePath_def)

text \<open>
  Claim C7. After every \<open>Synchronize\<close> call of a controller, whatever calls came before, the
  steering command lies in [-1, 1], throttle and braking lie in [0, 1], and throttle and
  braking are not both different from zero. Values out of range are clamped: with no path
  switch requested, the call reports no error.
\<close>

theorem Synchronize_commands_clamped:
  assumes "new_controller L ps speed time_gap min_distance distance speed_gains steering_gains ahead
             = Inr c0"
  shows "commands_in_range (snd (ACC_Synchronize L time own lead (run_commands L cmds c0))) \<and>
         (mode c0 = SinglePath \<or> path_trigger L time = None \<longrightarrow>
            fst (ACC_Synchronize L time own lead (run_commands L cmds c0)) = None)"
proof -
  have "valid_controller (run_commands L cmds c0)"
    using assms by (intro run_commands_valid new_controller_valid)
  then show ?thesis
    by (simp add: ACC_Synchronize_commands ACC_Synchronize_continues run_commands_mode)
qed

theorem Synchronize_commands_clamped_witness:
  "commands_in_range (toy_controller
        \<lparr>active_path := 1, lead_distance := Some 3,
         speed_controller := \<lparr>gains = \<lparr>Kp = 2 / 5, Ki = 0, Kd = 0\<rparr>, memory = (- 20, - 20)\<rparr>,
         steering := 1, throttle := 0, braking := 1\<rparr>) \<and>
   fst (ACC_Synchronize toy_laws 1 (1 / 2, 9) (Some 3) toy_controller) = None \<and>
   braking (snd (ACC_Synchronize toy_laws 1 (1 / 2, 9) (Some 3) toy_controller)) = 1 / 2"
  using Synchronize_commands_clamped [OF toy_new_controller, of 6 "(- 10, 30)" "Some 3" "[]"]
    Synchronize_commands_clamped [OF toy_new_controller, of 1 "(1 / 2, 9)" "Some 3" "[]"]
  by (simp add: toy_Synchronize_switch toy_Synchronize_brake)

text \<open>
  Claim C8. A switch to another path resets the memory of the steering controller to that
  of a fresh controller and changes nothing else but the active path index: the speed
  controller, memory included, is as before. Fed any error sequence, the steering controller
  then gives the outputs of a fresh controller with the same gains. The same holds for a
  switch that the trigger of \<open>Synchronize\<close> requests.
\<close>

theorem path_switch_resets_steering_only:
  assumes "0 \<le> index" and "index < int (length (paths c))" and "nat index \<noteq> active_path c"
  shows "changePath L index c =
           (None, c\<lparr>active_path := nat index,
                    steering_controller :=
                      \<lparr>gains = gains (steering_controller c), memory = fresh_memory L\<rparr>\<rparr>) \<and>
         speed_controller (snd (changePath L index c)) = speed_controller c \<and>
         pid_outputs L (steering_controller (snd (changePath L index c))) es =
           pid_outputs L \<lparr>gains = gains (steering_controller c), memory = fresh_memory L\<rparr> es \<and>
         (mode c = MultiPath \<and> path_trigger L time = Some index \<longrightarrow>
            steering_controller (snd (path_switch L time c)) =
              \<lparr>gains = gains (steering_controller c), memory = fresh_memory L\<rparr> \<and>
            speed_controller (snd (path_switch L time c)) = speed_controller c)"
  using assms by (simp add: changePath_def path_switch_def reset_memory)

theorem path_switch_resets_steering_only_witness:
  "pid_outputs toy_laws (steering_controller toy_driven) [1, 1] = [3 / 4, 11 / 20] \<and>
   pid_outputs toy_laws (steering_controller (snd (changePath toy_laws 1 toy_driven))) [1, 1] =
     [7 / 10, 3 / 5] \<and>
   memory (speed_controller (snd (changePath toy_laws 1 toy_driven))) = (1, 1) \<and>
   active_path (snd (changePath toy_laws 1 toy_driven)) = 1 \<and>
   memory (steering_controller (snd (path_switch toy_laws 6 toy_driven))) = (0, 0) \<and>
   memory (speed_controller (snd (path_switch toy_laws 6 toy_driven))) = (1, 1)"
proof -
  have a: "(0::int) \<le> 1" by simp
  have b: "1 < int (length (paths toy_driven))"
    and c: "nat 1 \<noteq> active_path toy_driven"
    and g: "gains (steering_controller toy_driven) = \<lparr>Kp = 2 / 5, Ki = 1 / 10, Kd = 1 / 5\<rparr>"
    and f: "fresh_memory toy_laws = (0, 0)"
    and m: "memory (speed_controller toy_driven) = (1, 1)"
    and d: "mode toy_driven = MultiPath" "path_trigger toy_laws 6 = Some 1"
    by (simp_all add: toy_driven_eq toy_controller_def toy_laws_def)
  from path_switch_resets_steering_only [OF a b c, of toy_laws "[1, 1]" 6]
  show ?thesis
    by (simp add: g f m d toy_fresh_outputs toy_driven_outputs del: pid_outputs.simps)
qed

section \<open>Properties of the simulation loop\<close>

lemma loop_body_log:
  "phase_log (loop_body M rank s) =
     phase_log s @
     tick_phases (path_switch_due M rank (mpi_Synchronize M (mpi_Advance M (world s))))"
  by (simp add: loop_body_def call_phase_def tick_phases_def Let_def)

lemma after_ticks_Suc: "after_ticks M rank (Suc k) s = loop_body M rank (after_ticks M rank k s)"
  by (simp add: after_ticks_def)

lemma after_ticks_Suc': "after_ticks M rank (Suc k) s = after_ticks M rank k (loop_body M rank s)"
  by (simp add: after_ticks_def funpow_swap1)

lemma after_ticks_log:
  "phase_log (after_ticks M rank n s) =
     phase_log s @
     concat (map (\<lambda>k. tick_phases (path_switch_due M rank
                         (mpi_Synchronize M (mpi_Advance M (world (after_ticks M rank k s))))))
               [0..<n])"
proof (induction n)
  case 0
  show ?case by (simp add: after_ticks_def)
next
  case (Suc n)
  show ?case
    by (simp add: after_ticks_Suc loop_body_log Suc.IH)
qed

lemma simulation_loop_runs:
  assumes "\<forall>k<n. IsOk M (world (after_ticks M rank k s))"
    and "\<not> IsOk M (world (after_ticks M rank n s))"
    and "n \<le> fuel"
  shows "simulation_loop M rank fuel s = Some (after_ticks M rank n s)"
  using assms
proof (induction n arbitrary: s fuel)
  case 0
  then show ?case by (cases fuel) (simp_all add: after_ticks_def)
next
  case (Suc n)
  from Suc.prems(3) obtain fuel' where fuel: "fuel = Suc fuel'" "n \<le> fuel'"
    by (cases fuel) simp_all
  from Suc.prems(1) have ok: "IsOk M (world s)"
    by (auto simp add: after_ticks_def dest: spec [of _ 0])
  have "\<forall>k<n. IsOk M (world (after_ticks M rank k (loop_body M rank s)))"
    using Suc.prems(1) by (auto simp add: after_ticks_Suc' [symmetric])
  moreover have "\<not> IsOk M (world (after_ticks M rank n (loop_body M rank s)))"
    using Suc.prems(2) by (simp add: after_ticks_Suc')
  ultimately have "simulation_loop M rank fuel' (loop_body M rank s) =
      Some (after_ticks M rank n (loop_body M rank s))"
    using fuel(2) by (rule Suc.IH)
  then show ?case using ok fuel(1) by (simp add: after_ticks_Suc')
qed

lemma simulation_loop_out_of_fuel:
  assumes "\<forall>k\<le>fuel. IsOk M (world (after_ticks M rank k s))"
  shows "simulation_loop M rank fuel s = None"
  using assms
proof (induction fuel arbitrary: s)
  case 0
  then show ?case by (simp add: after_ticks_def)
next
  case (Suc fuel)
  from Suc.prems have ok: "IsOk M (world s)"
    by (auto simp add: after_ticks_def dest: spec [of _ 0])
  have "\<forall>k\<le>fuel. IsOk M (world (after_ticks M rank k (loop_body M rank s)))"
    using Suc.prems by (auto simp add: after_ticks_Suc' [symmetric])
  from Suc.IH [OF this] ok show ?case by simp
qed

lemma toy_after_ticks:
  "after_ticks (toy_manager 7) 0 0 (toy_start 4) = toy_start 4"
  "after_ticks (toy_manager 7) 0 (Suc 0) (toy_start 4) =
     \<lparr>world = \<lparr>clock = 5, driver_path = 0, path_seen = 0\<rparr>,
      phase_log = [Advance_phase, Exchange_phase, Update_phase]\<rparr>"
  "after_ticks (toy_manager 7) 0 2 (toy_start 4) =
     \<lparr>world = \<lparr>clock = 6, driver_path = 1, path_seen = 1\<rparr>,
      phase_log = [Advance_phase, Exchange_phase, Update_phase,
                   Advance_phase, Exchange_phase, changePath_request 1, Update_phase]\<rparr>"
  "after_ticks (toy_manager 7) 0 3 (toy_start 4) =
     \<lparr>world = \<lparr>clock = 7, driver_path = 1, path_seen = 1\<rparr>,
      phase_log = [Advance_phase, Exchange_phase, Update_phase,
                   Advance_phase, Exchange_phase, changePath_request 1, Update_phase,
                   Advance_phase, Exchange_phase, Update_phase]\<rparr>"
  by (simp_all add: after_ticks_def eval_nat_numeral toy_manager_def toy_start_def loop_body_def
      call_phase_def path_switch_due_def Let_def)

lemma less_3_cases: "k < (3::nat) \<longleftrightarrow> k = 0 \<or> k = 1 \<or> k = 2"
  by auto

lemma le_2_cases: "k \<le> (2::nat) \<longleftrightarrow> k = 0 \<or> k = 1 \<or> k = 2"
  by auto

subsection \<open>The claim about the loop\<close>

text \<open>
  Claim C9, as the code has it. While \<open>IsOk\<close> holds the loop goes on, and when it first fails,
  after \<open>n\<close> ticks, the loop ends in the state that \<open>n\<close> ticks lead to; \<open>IsOk\<close> is tested at
  the head of the loop only, between two ticks. Every tick is \<open>Advance\<close>, then the exchange
  (\<open>Synchronize\<close>), then \<open>Update\<close>, in this order; the \<open>changePath(1)\<close> request, when it is
  due, comes between the exchange and \<open>Update\<close> of its tick.
\<close>

theorem loop_phase_order:
  "((\<forall>k<n. IsOk M (world (after_ticks M rank k s))) \<and>
    \<not> IsOk M (world (after_ticks M rank n s)) \<and> n \<le> fuel \<longrightarrow>
      simulation_loop M rank fuel s = Some (after_ticks M rank n s)) \<and>
   ((\<forall>k\<le>fuel. IsOk M (world (after_ticks M rank k s))) \<longrightarrow>
      simulation_loop M rank fuel s = None) \<and>
   phase_log (after_ticks M rank n s) =
     phase_log s @
     concat (map (\<lambda>k. tick_phases (path_switch_due M rank
                         (mpi_Synchronize M (mpi_Advance M (world (after_ticks M rank k s))))))
               [0..<n])"
  using simulation_loop_runs [of n M rank s fuel] simulation_loop_out_of_fuel [of fuel M rank s]
    after_ticks_log [of M rank n s]
  by blast

text \<open>
  Against claim C9 as stated: on rank 0 with the clock at 6 after \<open>Advance\<close>, the path is
  switched between the exchange and \<open>Update\<close>, inside the tick and not at its boundary;
  \<open>Update\<close> already sees the new path.
\<close>

theorem loop_phase_order_counterexample:
  "simulation_loop (toy_manager 6) 0 5 (toy_start 5) =
     Some \<lparr>world = \<lparr>clock = 6, driver_path = 1, path_seen = 1\<rparr>,
           phase_log = [Advance_phase, Exchange_phase, changePath_request 1, Update_phase]\<rparr> \<and>
   \<not> changes_at_tick_boundaries
       [Advance_phase, Exchange_phase, changePath_request 1, Update_phase]"
  by (simp add: eval_nat_numeral toy_manager_def toy_start_def loop_body_def call_phase_def
      path_switch_due_def Let_def)

theorem loop_phase_order_witness:
  "simulation_loop (toy_manager 7) 0 5 (toy_start 4) =
     Some \<lparr>world = \<lparr>clock = 7, driver_path = 1, path_seen = 1\<rparr>,
           phase_log = [Advance_phase, Exchange_phase, Update_phase,
                        Advance_phase, Exchange_phase, changePath_request 1, Update_phase,
                        Advance_phase, Exchange_phase, Update_phase]\<rparr> \<and>
   simulation_loop (toy_manager 7) 0 2 (toy_start 4) = None"
proof -
  have ok: "\<forall>k<3. IsOk (toy_manager 7) (world (after_ticks (toy_manager 7) 0 k (toy_start 4)))"
    by (auto simp add: less_3_cases toy_after_ticks) (simp_all add: toy_manager_def toy_start_def)
  have stop: "\<not> IsOk (toy_manager 7) (world (after_ticks (toy_manager 7) 0 3 (toy_start 4)))"
    by (simp add: toy_after_ticks) (simp add: toy_manager_def)
  have ok2: "\<forall>k\<le>2. IsOk (toy_manager 7) (world (after_ticks (toy_manager 7) 0 k (toy_start 4)))"
    by (auto simp add: le_2_cases toy_after_ticks) (simp_all add: toy_manager_def toy_start_def)
  from loop_phase_order [of 3 "toy_manager 7" 0 "toy_start 4" 5] ok stop
  have "simulation_loop (toy_manager 7) 0 5 (toy_start 4) =
      Some (after_ticks (toy_manager 7) 0 3 (toy_start 4))"
    by simp
  moreover from loop_phase_order [of 3 "toy_manager 7" 0 "toy_start 4" 2] ok2
  have "simulation_loop (toy_manager 7) 0 2 (toy_start 4) = None"
    by blast
  ultimately show ?thesis by (simp add: toy_after_ticks)
qed

end
